theory Spec2Isabelle
  imports Complex_Main
begin

section \<open>Errors as values\<close>

text \<open>
  Every exception the modelled Python can raise is a value of \<open>error\<close>; a call that can
  raise returns \<open>error + 'a\<close> with \<open>Inl\<close> for the exception. \<open>ValueError\<close> carries the
  fixed part of the message, \<open>AttributeError\<close> the name of the missing attribute.
\<close>

datatype error =
    ValueError string
  | AttributeError string
  | TypeError
  | ZeroDivisionError
  | IndexError
  | RuntimeError
  | EinopsError
  | UnboundLocalError

definition bindE :: "error + 'a \<Rightarrow> ('a \<Rightarrow> error + 'b) \<Rightarrow> error + 'b" where
  "bindE m f = (case m of Inl e \<Rightarrow> Inl e | Inr x \<Rightarrow> f x)"

fun mapM :: "('a \<Rightarrow> error + 'b) \<Rightarrow> 'a list \<Rightarrow> error + 'b list" where
  "mapM f [] = Inr []"
| "mapM f (x # xs) = bindE (f x) (\<lambda>y. bindE (mapM f xs) (\<lambda>ys. Inr (y # ys)))"

fun foldM :: "('b \<Rightarrow> 'a \<Rightarrow> error + 'b) \<Rightarrow> 'b \<Rightarrow> 'a list \<Rightarrow> error + 'b" where
  "foldM f a [] = Inr a"
| "foldM f a (x # xs) = bindE (f a x) (\<lambda>a'. foldM f a' xs)"

lemma mapM_cong [fundef_cong]:
  "xs = ys \<Longrightarrow> (\<And>x. x \<in> set ys \<Longrightarrow> f x = g x) \<Longrightarrow> mapM f xs = mapM g ys"
  by (induction ys arbitrary: xs) auto

lemma bindE_Inl [simp]: "bindE (Inl e) f = Inl e"
  by (simp add: bindE_def)

lemma bindE_Inr [simp]: "bindE (Inr x) f = f x"
  by (simp add: bindE_def)

section \<open>Tensors\<close>

text \<open>
  A torch tensor is a nested list: \<open>Sc x\<close> is a 0-dimensional tensor, \<open>Tn ts\<close> stacks the
  tensors \<open>ts\<close> along a new leading dimension. Floating-point elements are idealised as
  \<open>real\<close>, integer (label) elements are \<open>int\<close>. Only what the routines and losses call
  is modelled, with torch's dimension checks written out.
\<close>

datatype 'a tensor = Sc (un_Sc: 'a) | Tn (un_Tn: "'a tensor list")

lemma size_tensor_mem: "t \<in> set ts \<Longrightarrow> size t < Suc (size_list size ts)"
  by (induction ts) auto

fun ndim :: "'a tensor \<Rightarrow> nat" where
  "ndim (Sc x) = 0"
| "ndim (Tn []) = 1"
| "ndim (Tn (t # ts)) = Suc (ndim t)"

fun dim_size :: "nat \<Rightarrow> 'a tensor \<Rightarrow> nat" where
  "dim_size k (Sc x) = 1"
| "dim_size 0 (Tn ts) = length ts"
| "dim_size (Suc k) (Tn []) = 0"
| "dim_size (Suc k) (Tn (t # ts)) = dim_size k t"

text \<open>All elements in storage order, for the reductions over a whole tensor.\<close>

fun elements :: "'a tensor \<Rightarrow> 'a list" where
  "elements (Sc x) = [x]"
| "elements (Tn ts) = concat (map elements ts)"

text \<open>
  torch accepts a dimension \<open>d\<close> with \<open>-n \<le> d < n\<close> for an \<open>n\<close>-dimensional tensor (a
  0-dimensional one counts as \<open>n = 1\<close>) and raises IndexError otherwise.
\<close>

definition norm_dim :: "int \<Rightarrow> nat \<Rightarrow> error + nat" where
  "norm_dim d n =
     (let m = int (max n 1)
      in if - m \<le> d \<and> d < m then Inr (nat (if d < 0 then d + m else d))
         else Inl IndexError)"

text \<open>Element-wise binary operations with torch's broadcasting of trailing dimensions.\<close>

function bop :: "('a \<Rightarrow> 'a \<Rightarrow> 'a) \<Rightarrow> 'a tensor \<Rightarrow> 'a tensor \<Rightarrow> error + 'a tensor" where
  "bop f (Sc x) (Sc y) = Inr (Sc (f x y))"
| "bop f (Sc x) (Tn ys) = map_sum id Tn (mapM (\<lambda>y. bop f (Sc x) y) ys)"
| "bop f (Tn xs) (Sc y) = map_sum id Tn (mapM (\<lambda>x. bop f x (Sc y)) xs)"
| "bop f (Tn xs) (Tn ys) =
     (if ndim (Tn xs) < ndim (Tn ys) then map_sum id Tn (mapM (\<lambda>y. bop f (Tn xs) y) ys)
      else if ndim (Tn ys) < ndim (Tn xs) then map_sum id Tn (mapM (\<lambda>x. bop f x (Tn ys)) xs)
      else if length xs = length ys then map_sum id Tn (mapM (\<lambda>(x, y). bop f x y) (zip xs ys))
      else (case xs of
              [x] \<Rightarrow> map_sum id Tn (mapM (\<lambda>y. bop f x y) ys)
            | _ \<Rightarrow> (case ys of
                      [y] \<Rightarrow> map_sum id Tn (mapM (\<lambda>x. bop f x y) xs)
                    | _ \<Rightarrow> Inl RuntimeError)))"
  by pat_completeness auto

termination bop
proof (relation "measure (\<lambda>(f, a, b). size a + size b)", goal_cases)
  case 1
  show ?case by simp
next
  case (6 f xs ys z x y)
  then have "x \<in> set xs" "y \<in> set ys"
    by (auto dest: set_zip_leftD set_zip_rightD)
  then show ?case
    using size_tensor_mem[of x xs] size_tensor_mem[of y ys] by simp
qed (auto dest: size_tensor_mem)

text \<open>
  Reduction along dimension \<open>k\<close> (already normalised) by a binary operation: the
  sub-tensors along that dimension are combined element-wise. \<open>z\<close> is the result on
  an empty dimension, \<open>keep\<close> is torch's \<open>keepdim\<close>.
\<close>

fun reduce_at ::
  "('a \<Rightarrow> 'a \<Rightarrow> 'a) \<Rightarrow> error + 'a tensor \<Rightarrow> bool \<Rightarrow> nat \<Rightarrow> 'a tensor \<Rightarrow> error + 'a tensor" where
  "reduce_at f z keep k (Sc x) = Inr (Sc x)"
| "reduce_at f z keep 0 (Tn []) = z"
| "reduce_at f z keep 0 (Tn (t # ts)) =
     bindE (foldM (bop f) t ts) (\<lambda>r. Inr (if keep then Tn [r] else r))"
| "reduce_at f z keep (Suc k) (Tn ts) = map_sum id Tn (mapM (reduce_at f z keep k) ts)"

definition sum_dim :: "int \<Rightarrow> bool \<Rightarrow> 'a::comm_monoid_add tensor \<Rightarrow> error + 'a tensor" where
  "sum_dim d keep t = bindE (norm_dim d (ndim t)) (\<lambda>k. reduce_at (+) (Inr (Sc 0)) keep k t)"

definition max_dim :: "int \<Rightarrow> 'a::linorder tensor \<Rightarrow> error + 'a tensor" where
  "max_dim d t = bindE (norm_dim d (ndim t)) (\<lambda>k. reduce_at max (Inl IndexError) False k t)"

definition mean_dim :: "int \<Rightarrow> real tensor \<Rightarrow> error + real tensor" where
  "mean_dim d t =
     bindE (norm_dim d (ndim t)) (\<lambda>k.
     bindE (reduce_at (+) (Inr (Sc 0)) False k t) (\<lambda>s.
     Inr (map_tensor (\<lambda>x. x / real (dim_size k t)) s)))"

text \<open>\<open>t.sum()\<close> and \<open>t.mean()\<close> over all elements give a 0-dimensional tensor.\<close>

definition sum_all :: "real tensor \<Rightarrow> real tensor" where
  "sum_all t = Sc (sum_list (elements t))"

definition mean_all :: "real tensor \<Rightarrow> real tensor" where
  "mean_all t = Sc (sum_list (elements t) / real (length (elements t)))"

definition neg :: "real tensor \<Rightarrow> real tensor" where
  "neg t = map_tensor uminus t"

definition sigmoid :: "real tensor \<Rightarrow> real tensor" where
  "sigmoid t = map_tensor (\<lambda>x. 1 / (1 + exp (- x))) t"

text \<open>
  \<open>torch.special.entr\<close>: \<open>-x * ln x\<close> for positive \<open>x\<close> and 0 at 0. (For negative \<open>x\<close>
  torch gives minus infinity, which \<open>real\<close> does not have; probabilities are never
  negative.)
\<close>

definition entr :: "real tensor \<Rightarrow> real tensor" where
  "entr t = map_tensor (\<lambda>x. if 0 < x then - x * ln x else 0) t"

definition zeros_like :: "int tensor \<Rightarrow> int tensor" where
  "zeros_like t = map_tensor (\<lambda>_. 0) t"

definition ones_like :: "int tensor \<Rightarrow> int tensor" where
  "ones_like t = map_tensor (\<lambda>_. 1) t"

text \<open>\<open>F.softmax(t, dim=-1)\<close>: each innermost vector is normalised.\<close>

fun softmax_last :: "real tensor \<Rightarrow> real tensor" where
  "softmax_last (Sc x) = Sc (exp x / exp x)"
| "softmax_last (Tn ts) =
     (if list_all is_Sc ts
      then Tn (map (\<lambda>t. Sc (exp (un_Sc t) / sum_list (map (\<lambda>u. exp (un_Sc u)) ts))) ts)
      else Tn (map softmax_last ts))"

text \<open>\<open>t.squeeze(-1)\<close>: a last dimension of size 1 is removed, any other is kept.\<close>

fun squeeze_last :: "'a tensor \<Rightarrow> 'a tensor" where
  "squeeze_last (Sc x) = Sc x"
| "squeeze_last (Tn [Sc x]) = Sc x"
| "squeeze_last (Tn ts) = (if list_all is_Sc ts then Tn ts else Tn (map squeeze_last ts))"

text \<open>\<open>t.transpose(0, 1)\<close>, which needs two dimensions.\<close>

definition transpose01 :: "'a tensor \<Rightarrow> error + 'a tensor" where
  "transpose01 t =
     (if ndim t < 2 then Inl IndexError
      else Inr (Tn (map Tn (transpose (map un_Tn (un_Tn t))))))"

text \<open>
  einops \<open>rearrange(t, "(n b) c -> b n c", n=n)\<close>: the input must have exactly two
  dimensions and \<open>n\<close> must divide the first; the rows are split into \<open>n\<close> consecutive
  groups of \<open>b\<close> rows (shape \<open>n b c\<close>) and the first two axes are swapped.
\<close>

definition split_rows :: "nat \<Rightarrow> nat \<Rightarrow> 'a list \<Rightarrow> 'a list list" where
  "split_rows n b rows = map (\<lambda>e. take b (drop (e * b) rows)) [0..<n]"

definition rearrange_nb_c :: "nat \<Rightarrow> 'a tensor \<Rightarrow> error + 'a tensor" where
  "rearrange_nb_c n t =
     (if ndim t \<noteq> 2 then Inl EinopsError
      else if n = 0 \<or> length (un_Tn t) mod n \<noteq> 0 then Inl EinopsError
      else Inr (Tn (map Tn (transpose (split_rows n (length (un_Tn t) div n) (un_Tn t))))))"

text \<open>Reading an element of a 2- or 3-dimensional tensor.\<close>

definition at2 :: "'a tensor \<Rightarrow> nat \<Rightarrow> nat \<Rightarrow> 'a tensor" where
  "at2 t i j = un_Tn (un_Tn t ! i) ! j"

definition at3 :: "'a tensor \<Rightarrow> nat \<Rightarrow> nat \<Rightarrow> nat \<Rightarrow> 'a tensor" where
  "at3 t i j k = un_Tn (un_Tn (un_Tn t ! i) ! j) ! k"

section \<open>The single-model classification routine\<close>

text \<open>
  \<open>ClassificationSingle\<close> of \<open>routines/classification.py\<close>. The external collaborators
  are kept as what the routine relies on: the model is its \<open>forward\<close> function (and its
  optional \<open>feats_forward\<close>), a metric collection is the list of the updates it has
  received, the logger is the list of logged names, a mixing policy of the libraries is
  a tag applied by an external function.
\<close>

type_synonym forward_fn = "real tensor \<Rightarrow> error + real tensor"

type_synonym pool = "(real tensor \<times> int tensor) list"

type_synonym dataset = "(real tensor \<times> int tensor) list"

text \<open>Training targets are integer labels, or floating-point after mixing or a cast.\<close>

datatype targets = Labels "int tensor" | Soft "real tensor"

type_synonym train_batch = "real tensor \<times> targets"

type_synonym criterion_fn = "real tensor \<Rightarrow> targets \<Rightarrow> error + real"

text \<open>
  What \<open>self.loss\<close> can be: the class \<open>nn.BCEWithLogitsLoss\<close>, a \<open>partial\<close> of \<open>ELBOLoss\<close>
  that still awaits its model, or any other loss class; each with the function its
  instance computes.
\<close>

datatype loss_handle =
    BCEWithLogitsLoss criterion_fn
  | PartialELBO "forward_fn \<Rightarrow> criterion_fn"
  | OtherLoss criterion_fn

datatype mixup_policy =
    Identity
  | TimmMixup real real string int
  | Mixup real string int
  | MixupIO real string int
  | RegMixup real string int
  | WarpingMixup real string int bool real real

text \<open>An attribute that is assigned only by a hook: absent until the hook has run.\<close>

datatype 'a attr = Unset | Attr 'a

record model_obj =
  forward :: forward_fn
  feats_forward :: "forward_fn option"

record single_args =
  arg_num_classes :: int
  arg_model :: model_obj
  arg_loss :: loss_handle
  arg_format_batch_fn :: "train_batch \<Rightarrow> error + train_batch"
  arg_mixtype :: string
  arg_mixmode :: string
  arg_dist_sim :: string
  arg_kernel_tau_max :: real
  arg_kernel_tau_std :: real
  arg_mixup_alpha :: real
  arg_cutmix_alpha :: real
  arg_ood_detection :: bool
  arg_use_entropy :: bool
  arg_use_logits :: bool
  arg_calibration_set :: "dataset option"

record routine =
  num_classes :: int
  ood_detection :: bool
  use_logits :: bool
  use_entropy :: bool
  calibration_set :: "dataset option"
  binary_cls :: bool
  model :: model_obj
  loss :: loss_handle
  format_batch_fn :: "train_batch \<Rightarrow> error + train_batch"
  val_cls_metrics :: pool
  test_cls_metrics :: pool
  ts_cls_metrics :: "pool option"
  test_entropy_id :: "real tensor list"
  test_ood_metrics :: "pool option"
  test_entropy_ood :: "real tensor list option"
  mixtype :: string
  mixmode :: string
  dist_sim :: string
  mixup :: "mixup_policy option"
  is_elbo :: bool
  scaler :: "forward_fn option attr"
  cal_model :: "forward_fn option attr"
  logged :: "string list"

definition ood_criterion_msg :: string where
  "ood_criterion_msg = ''You cannot choose more than one OOD criterion.''"

definition alpha_msg :: string where
  "alpha_msg = ''Cutmix alpha and Mixup alpha must be positive.''"

text \<open>
  The \<open>if\<close>/\<open>elif\<close> chain over \<open>self.mixtype\<close> in \<open>__init__\<close>; it has no \<open>else\<close>, so for
  any other name \<open>self.mixup\<close> is never assigned.
\<close>

definition select_mixup :: "single_args \<Rightarrow> mixup_policy option" where
  "select_mixup a =
     (if arg_mixtype a = ''erm'' then Some Identity
      else if arg_mixtype a = ''timm'' then
        Some (TimmMixup (arg_mixup_alpha a) (arg_cutmix_alpha a) (arg_mixmode a) (arg_num_classes a))
      else if arg_mixtype a = ''mixup'' then
        Some (Mixup (arg_mixup_alpha a) (arg_mixmode a) (arg_num_classes a))
      else if arg_mixtype a = ''mixup_io'' then
        Some (MixupIO (arg_mixup_alpha a) (arg_mixmode a) (arg_num_classes a))
      else if arg_mixtype a = ''regmixup'' then
        Some (RegMixup (arg_mixup_alpha a) (arg_mixmode a) (arg_num_classes a))
      else if arg_mixtype a = ''kernel_warping'' then
        Some (WarpingMixup (arg_mixup_alpha a) (arg_mixmode a) (arg_num_classes a) True
               (arg_kernel_tau_max a) (arg_kernel_tau_std a))
      else None)"

text \<open>
  \<open>ClassificationSingle.__init__\<close>. Python adds the two booleans as integers. The
  metric collections start empty; those of the calibrated model and of OOD detection
  exist only when configured.
\<close>

definition single_init :: "single_args \<Rightarrow> error + routine" where
  "single_init a =
     (if (of_bool (arg_use_logits a) + of_bool (arg_use_entropy a) :: int) > 1
      then Inl (ValueError ood_criterion_msg)
      else if arg_mixup_alpha a < 0 \<or> arg_cutmix_alpha a < 0
      then Inl (ValueError alpha_msg)
      else Inr \<lparr>
        num_classes = arg_num_classes a,
        ood_detection = arg_ood_detection a,
        use_logits = arg_use_logits a,
        use_entropy = arg_use_entropy a,
        calibration_set = arg_calibration_set a,
        binary_cls = (arg_num_classes a = 1),
        model = arg_model a,
        loss = arg_loss a,
        format_batch_fn = arg_format_batch_fn a,
        val_cls_metrics = [],
        test_cls_metrics = [],
        ts_cls_metrics = (if arg_calibration_set a \<noteq> None then Some [] else None),
        test_entropy_id = [],
        test_ood_metrics = (if arg_ood_detection a then Some [] else None),
        test_entropy_ood = (if arg_ood_detection a then Some [] else None),
        mixtype = arg_mixtype a,
        mixmode = arg_mixmode a,
        dist_sim = arg_dist_sim a,
        mixup = select_mixup a,
        is_elbo = (case arg_loss a of PartialELBO _ \<Rightarrow> True | _ \<Rightarrow> False),
        scaler = Unset,
        cal_model = Unset,
        logged = [] \<rparr>)"

text \<open>
  The \<open>criterion\<close> property: an ELBO partial is bound to the model and instantiated,
  any other loss class is instantiated as it is.
\<close>

definition criterion :: "'a routine_scheme \<Rightarrow> criterion_fn" where
  "criterion r =
     (case loss r of
        PartialELBO k \<Rightarrow> k (forward (model r))
      | BCEWithLogitsLoss c \<Rightarrow> c
      | OtherLoss c \<Rightarrow> c)"

text \<open>
  Calling \<open>self.mixup\<close>: an AttributeError when it was never assigned; the identity
  \<open>lambda x, y: (x, y)\<close> takes exactly two arguments; the library policies are applied
  by the external \<open>run_policy\<close>.
\<close>

definition call_mixup ::
  "(mixup_policy \<Rightarrow> train_batch \<Rightarrow> real tensor option \<Rightarrow> error + train_batch) \<Rightarrow>
   'a routine_scheme \<Rightarrow> train_batch \<Rightarrow> real tensor option \<Rightarrow> error + train_batch" where
  "call_mixup run_policy r batch feats =
     (case mixup r of
        None \<Rightarrow> Inl (AttributeError ''mixup'')
      | Some Identity \<Rightarrow> (case feats of None \<Rightarrow> Inr batch | Some _ \<Rightarrow> Inl TypeError)
      | Some p \<Rightarrow> run_policy p batch feats)"

definition float_targets :: "targets \<Rightarrow> targets" where
  "float_targets t = (case t of Labels l \<Rightarrow> Soft (map_tensor real_of_int l) | Soft s \<Rightarrow> Soft s)"

text \<open>\<open>ClassificationSingle.training_step\<close>: the loss and the routine after logging it.\<close>

definition single_training_step ::
  "(mixup_policy \<Rightarrow> train_batch \<Rightarrow> real tensor option \<Rightarrow> error + train_batch) \<Rightarrow>
   routine \<Rightarrow> train_batch \<Rightarrow> int \<Rightarrow> error + real \<times> routine" where
  "single_training_step run_policy r batch batch_idx =
     bindE
       (if mixtype r = ''kernel_warping'' then
          (if dist_sim r = ''emb'' then
             (case feats_forward (model r) of
                None \<Rightarrow> Inl (AttributeError ''feats_forward'')
              | Some ff \<Rightarrow> bindE (ff (fst batch)) (\<lambda>feats. call_mixup run_policy r batch (Some feats)))
           else if dist_sim r = ''inp'' then call_mixup run_policy r batch (Some (fst batch))
           else Inr batch)
        else call_mixup run_policy r batch None)
       (\<lambda>batch1.
     bindE (format_batch_fn r batch1) (\<lambda>(inputs, targets).
     bindE
       (if is_elbo r then criterion r inputs targets
        else
          bindE (forward (model r) inputs) (\<lambda>logits.
          if binary_cls r \<and> (case loss r of BCEWithLogitsLoss _ \<Rightarrow> True | _ \<Rightarrow> False)
          then criterion r (squeeze_last logits) (float_targets targets)
          else criterion r logits targets))
       (\<lambda>l. Inr (l, r\<lparr>logged := logged r @ [''train_loss'']\<rparr>))))"

text \<open>\<open>ClassificationSingle.validation_step\<close>.\<close>

definition single_probs :: "bool \<Rightarrow> real tensor \<Rightarrow> real tensor" where
  "single_probs binary logits =
     (if binary then squeeze_last (sigmoid logits) else softmax_last logits)"

definition single_validation_step ::
  "routine \<Rightarrow> real tensor \<times> int tensor \<Rightarrow> int \<Rightarrow> error + routine" where
  "single_validation_step r batch batch_idx =
     (case batch of (inputs, targets) \<Rightarrow>
        bindE (forward (model r) inputs) (\<lambda>logits.
        Inr (r\<lparr>val_cls_metrics :=
                 val_cls_metrics r @ [(single_probs (binary_cls r) logits, targets)]\<rparr>)))"

text \<open>
  The OOD score of \<open>test_step\<close> (its lines from \<open>confs\<close> to \<open>ood_values\<close>): the negative
  maximum logit, the entropy summed over the classes, or the negative confidence.
\<close>

definition single_ood_values ::
  "'a routine_scheme \<Rightarrow> real tensor \<Rightarrow> real tensor \<Rightarrow> error + real tensor" where
  "single_ood_values r logits probs =
     bindE (max_dim (- 1) probs) (\<lambda>confs.
       if use_logits r then bindE (max_dim (- 1) logits) (\<lambda>m. Inr (neg m))
       else if use_entropy r then sum_dim (- 1) False (entr probs)
       else Inr (neg confs))"

text \<open>
  The calibrated branch of \<open>test_step\<close>: taken whenever a calibration set is configured
  and the test-start hook has left a scaler and a calibrated model; it does not look at
  the dataloader index.
\<close>

definition calibrated_update ::
  "routine \<Rightarrow> real tensor \<Rightarrow> int tensor \<Rightarrow> error + routine" where
  "calibrated_update r inputs targets =
     (if calibration_set r = None then Inr r
      else case scaler r of
        Unset \<Rightarrow> Inl (AttributeError ''scaler'')
      | Attr None \<Rightarrow> Inr r
      | Attr (Some sc) \<Rightarrow>
          (case cal_model r of
             Unset \<Rightarrow> Inl (AttributeError ''cal_model'')
           | Attr None \<Rightarrow> Inr r
           | Attr (Some cm) \<Rightarrow>
               bindE (cm inputs) (\<lambda>cal_logits.
               case ts_cls_metrics r of
                 None \<Rightarrow> Inl (AttributeError ''ts_cls_metrics'')
               | Some p \<Rightarrow>
                   Inr (r\<lparr>ts_cls_metrics := Some (p @ [(softmax_last cal_logits, targets)])\<rparr>))))"

text \<open>The dispatch of \<open>test_step\<close> on the dataloader index.\<close>

definition route_batch ::
  "routine \<Rightarrow> real tensor \<Rightarrow> real tensor \<Rightarrow> int tensor \<Rightarrow> int option \<Rightarrow> error + routine" where
  "route_batch r probs ood_values targets dataloader_idx =
     (if dataloader_idx = Some 0 then
        (let r1 = r\<lparr>test_cls_metrics := test_cls_metrics r @ [(probs, targets)],
                    test_entropy_id := test_entropy_id r @ [probs],
                    logged := logged r @ [''hp/test_entropy_id'']\<rparr>
         in if ood_detection r then
              (case test_ood_metrics r of
                 None \<Rightarrow> Inl (AttributeError ''test_ood_metrics'')
               | Some p \<Rightarrow>
                   Inr (r1\<lparr>test_ood_metrics := Some (p @ [(ood_values, zeros_like targets)])\<rparr>))
            else Inr r1)
      else if ood_detection r \<and> dataloader_idx = Some 1 then
        (case test_ood_metrics r of
           None \<Rightarrow> Inl (AttributeError ''test_ood_metrics'')
         | Some p \<Rightarrow>
             (case test_entropy_ood r of
                None \<Rightarrow> Inl (AttributeError ''test_entropy_ood'')
              | Some en \<Rightarrow>
                  Inr (r\<lparr>test_ood_metrics := Some (p @ [(ood_values, ones_like targets)]),
                         test_entropy_ood := Some (en @ [probs]),
                         logged := logged r @ [''hp/test_entropy_ood'']\<rparr>)))
      else Inr r)"

text \<open>\<open>ClassificationSingle.test_step\<close>.\<close>

definition single_test_step ::
  "routine \<Rightarrow> real tensor \<times> int tensor \<Rightarrow> int \<Rightarrow> int option \<Rightarrow> error + routine" where
  "single_test_step r batch batch_idx dataloader_idx =
     (case batch of (inputs, targets) \<Rightarrow>
        bindE (forward (model r) inputs) (\<lambda>logits.
        bindE (single_ood_values r logits (single_probs (binary_cls r) logits)) (\<lambda>ood_values.
        bindE (calibrated_update r inputs targets) (\<lambda>r1.
        route_batch r1 (single_probs (binary_cls r) logits) ood_values targets dataloader_idx))))"

text \<open>
  \<open>ClassificationSingle.on_test_start\<close>: with a calibration set, the external
  temperature scaler is fitted and composed after the model.
\<close>

definition single_on_test_start ::
  "(forward_fn \<Rightarrow> dataset \<Rightarrow> error + forward_fn) \<Rightarrow> routine \<Rightarrow> error + routine" where
  "single_on_test_start fit r =
     (case calibration_set r of
        Some cs \<Rightarrow>
          bindE (fit (forward (model r)) cs) (\<lambda>sc.
          Inr (r\<lparr>scaler := Attr (Some sc),
                 cal_model := Attr (Some (\<lambda>x. bindE (forward (model r) x) sc))\<rparr>))
      | None \<Rightarrow> Inr (r\<lparr>scaler := Attr None, cal_model := Attr None\<rparr>))"

section \<open>The ensemble classification routine\<close>

text \<open>
  \<open>ClassificationEnsemble\<close> extends the single-model routine; further keyword arguments
  (mixing policy, calibration set) reach the base constructor unchanged.
\<close>

record ensemble_args = single_args +
  arg_num_estimators :: nat
  arg_use_mi :: bool
  arg_use_variation_ratio :: bool

record ens_routine = routine +
  num_estimators :: nat
  use_mi :: bool
  use_variation_ratio :: bool
  test_id_ens_metrics :: "real tensor list"
  test_ood_ens_metrics :: "real tensor list option"

text \<open>
  \<open>ClassificationEnsemble.__init__\<close>: the base constructor runs first (with its own
  two-flag check and its check of the alphas), then the four flags are added up.
\<close>

definition ensemble_init :: "ensemble_args \<Rightarrow> error + ens_routine" where
  "ensemble_init a =
     bindE (single_init (single_args.truncate a)) (\<lambda>r.
       if (of_bool (use_logits r) + of_bool (use_entropy r) + of_bool (arg_use_mi a)
            + of_bool (arg_use_variation_ratio a) :: int) > 1
       then Inl (ValueError ood_criterion_msg)
       else Inr (routine.extend r
         (ens_routine.fields (arg_num_estimators a) (arg_use_mi a) (arg_use_variation_ratio a)
            [] (if ood_detection r then Some [] else None))))"

text \<open>\<open>ClassificationEnsemble.validation_step\<close>.\<close>

definition ensemble_validation_step ::
  "ens_routine \<Rightarrow> real tensor \<times> int tensor \<Rightarrow> int \<Rightarrow> error + ens_routine" where
  "ensemble_validation_step r batch batch_idx =
     (case batch of (inputs, targets) \<Rightarrow>
        bindE (forward (model r) inputs) (\<lambda>logits0.
        bindE (rearrange_nb_c (num_estimators r) logits0) (\<lambda>logits.
        bindE (mean_dim 1 (if binary_cls r then squeeze_last (sigmoid logits)
                           else softmax_last logits)) (\<lambda>probs.
        Inr (r\<lparr>val_cls_metrics := val_cls_metrics r @ [(probs, targets)]\<rparr>)))))"

text \<open>
  The OOD score of the ensemble \<open>test_step\<close>. The mutual-information and
  variation-ratio metrics are external functions.
\<close>

definition ensemble_ood_values ::
  "forward_fn \<Rightarrow> forward_fn \<Rightarrow> ens_routine \<Rightarrow> real tensor \<Rightarrow> real tensor \<Rightarrow> real tensor \<Rightarrow>
   error + real tensor" where
  "ensemble_ood_values mi_metric vr_metric r logits probs_per_est probs =
     bindE (max_dim (- 1) probs) (\<lambda>confs.
       if use_logits r then
         bindE (mean_dim 1 logits) (\<lambda>m. bindE (max_dim (- 1) m) (\<lambda>mx. Inr (neg mx)))
       else if use_entropy r then
         bindE (sum_dim (- 1) False (entr probs)) (\<lambda>s. mean_dim 1 s)
       else if use_mi r then mi_metric probs_per_est
       else if use_variation_ratio r then bindE (transpose01 probs_per_est) vr_metric
       else Inr (neg confs))"

definition ensemble_route_batch ::
  "ens_routine \<Rightarrow> real tensor \<Rightarrow> real tensor \<Rightarrow> real tensor \<Rightarrow> int tensor \<Rightarrow> int option \<Rightarrow>
   error + ens_routine" where
  "ensemble_route_batch r probs_per_est probs ood_values targets dataloader_idx =
     (if dataloader_idx = Some 0 then
        (let r1 = r\<lparr>test_cls_metrics :=
                      test_cls_metrics r @
                        [(if binary_cls r then squeeze_last probs else probs, targets)],
                    test_entropy_id := test_entropy_id r @ [probs],
                    test_id_ens_metrics := test_id_ens_metrics r @ [probs_per_est],
                    logged := logged r @ [''hp/test_entropy_id'']\<rparr>
         in if ood_detection r then
              (case test_ood_metrics r of
                 None \<Rightarrow> Inl (AttributeError ''test_ood_metrics'')
               | Some p \<Rightarrow>
                   Inr (r1\<lparr>test_ood_metrics := Some (p @ [(ood_values, zeros_like targets)])\<rparr>))
            else Inr r1)
      else if ood_detection r \<and> dataloader_idx = Some 1 then
        (case test_ood_metrics r of
           None \<Rightarrow> Inl (AttributeError ''test_ood_metrics'')
         | Some p \<Rightarrow>
             (case test_entropy_ood r of
                None \<Rightarrow> Inl (AttributeError ''test_entropy_ood'')
              | Some en \<Rightarrow>
                  (case test_ood_ens_metrics r of
                     None \<Rightarrow> Inl (AttributeError ''test_ood_ens_metrics'')
                   | Some ep \<Rightarrow>
                       Inr (r\<lparr>test_ood_metrics := Some (p @ [(ood_values, ones_like targets)]),
                              test_entropy_ood := Some (en @ [probs]),
                              test_ood_ens_metrics := Some (ep @ [probs_per_est]),
                              logged := logged r @ [''hp/test_entropy_ood'']\<rparr>))))
      else Inr r)"

text \<open>\<open>ClassificationEnsemble.test_step\<close>.\<close>

definition ensemble_test_step ::
  "forward_fn \<Rightarrow> forward_fn \<Rightarrow> ens_routine \<Rightarrow> real tensor \<times> int tensor \<Rightarrow> int \<Rightarrow> int option \<Rightarrow>
   error + ens_routine" where
  "ensemble_test_step mi_metric vr_metric r batch batch_idx dataloader_idx =
     (case batch of (inputs, targets) \<Rightarrow>
        bindE (forward (model r) inputs) (\<lambda>logits0.
        bindE (rearrange_nb_c (num_estimators r) logits0) (\<lambda>logits.
        let probs_per_est = (if binary_cls r then sigmoid logits else softmax_last logits)
        in bindE (mean_dim 1 probs_per_est) (\<lambda>probs.
           bindE (ensemble_ood_values mi_metric vr_metric r logits probs_per_est probs)
             (\<lambda>ood_values.
           ensemble_route_batch r probs_per_est probs ood_values targets dataloader_idx)))))"

section \<open>The losses\<close>

subsection \<open>KLDiv and ELBOLoss\<close>

text \<open>
  A module of the Bayesian network either is one of the Bayesian layers, which caches
  its log variational posterior and its log prior at each forward pass, or is not.
\<close>

datatype module = Bayesian (lvposterior: real) (lprior: real) | Plain

text \<open>
  The losses of this subsection are float32 tensors, and one claim depends on the
  rounding. A float32 value is modelled by the real number it denotes, and every
  arithmetic operation of the code is followed by a rounding \<open>fl\<close>, a parameter:
  \<open>round32\<close> below for the code as it runs, the identity for exact arithmetic. A
  Python scalar that meets a tensor (\<open>kl_weight\<close>, \<open>num_samples\<close>) is first cast to
  the tensor's type, hence rounded too.

  \<open>round32\<close> is IEEE 754 binary32 rounding to nearest, ties to even (24 significant
  bits), for values in the normal range; overflow and subnormal numbers are not
  modelled.
\<close>

definition round_half_even :: "real \<Rightarrow> int" where
  "round_half_even q =
     (let f = \<lfloor>q\<rfloor>
      in if q - of_int f < 1 / 2 then f
         else if 1 / 2 < q - of_int f then f + 1
         else if even f then f else f + 1)"

definition round32 :: "real \<Rightarrow> real" where
  "round32 x =
     (if x = 0 then 0
      else let e = \<lfloor>log 2 \<bar>x\<bar>\<rfloor>; ulp = 2 powr (of_int e - 23)
           in of_int (round_half_even (x / ulp)) * ulp)"

text \<open>\<open>KLDiv._kl_div\<close>: the loop over \<open>model.modules()\<close>, starting from zero.\<close>

fun kl_loop :: "(real \<Rightarrow> real) \<Rightarrow> module list \<Rightarrow> real \<Rightarrow> real" where
  "kl_loop fl [] kl_divergence = kl_divergence"
| "kl_loop fl (Bayesian p q # ms) kl_divergence =
     kl_loop fl ms (fl (kl_divergence + fl (p - q)))"
| "kl_loop fl (Plain # ms) kl_divergence = kl_loop fl ms kl_divergence"

definition kl_div :: "(real \<Rightarrow> real) \<Rightarrow> module list \<Rightarrow> real" where
  "kl_div fl ms = kl_loop fl ms 0"

text \<open>
  The model of an \<open>ELBOLoss\<close> is stateful: a forward pass in state \<open>s\<close> (sampled
  weights, random generator, cached KL terms) returns the logits and the next state,
  and \<open>modules\<close> reads the modules of a state. The loss is a one-element tensor,
  modelled by its element.
\<close>

record ('s, 't) elbo_loss =
  elbo_model :: "'s \<Rightarrow> real tensor \<Rightarrow> error + real tensor \<times> 's"
  elbo_modules :: "'s \<Rightarrow> module list"
  elbo_criterion :: "real tensor \<Rightarrow> 't \<Rightarrow> error + real"
  kl_weight :: real
  num_samples :: int

text \<open>The criterion argument is a class, or an instance with its function.\<close>

datatype 'c criterion_arg = CriterionClass | CriterionInstance 'c

definition ELBOLoss_init ::
  "('s \<Rightarrow> real tensor \<Rightarrow> error + real tensor \<times> 's) \<Rightarrow> ('s \<Rightarrow> module list) \<Rightarrow>
   (real tensor \<Rightarrow> 't \<Rightarrow> error + real) criterion_arg \<Rightarrow> real \<Rightarrow> int \<Rightarrow>
   error + ('s, 't) elbo_loss" where
  "ELBOLoss_init mdl mods crit klw n =
     (case crit of
        CriterionClass \<Rightarrow> Inl (ValueError ''The criterion should be an instance of a class.'')
      | CriterionInstance c \<Rightarrow>
          if klw < 0 then Inl (ValueError ''The KL weight should be non-negative.'')
          else if n < 1 then Inl (ValueError ''The number of samples should not be lower than 1.'')
          else Inr \<lparr>elbo_model = mdl, elbo_modules = mods, elbo_criterion = c,
                    kl_weight = klw, num_samples = n\<rparr>)"

text \<open>
  The \<open>for _ in range(self.num_samples)\<close> loop of \<open>ELBOLoss.forward\<close>: both terms of a
  draw are added in place to the accumulator.
\<close>

fun elbo_loop ::
  "(real \<Rightarrow> real) \<Rightarrow> ('s, 't) elbo_loss \<Rightarrow> nat \<Rightarrow> 's \<Rightarrow> real tensor \<Rightarrow> 't \<Rightarrow> real \<Rightarrow>
   error + real \<times> 's" where
  "elbo_loop fl L 0 s inputs targets aggregated_elbo = Inr (aggregated_elbo, s)"
| "elbo_loop fl L (Suc k) s inputs targets aggregated_elbo =
     bindE (elbo_model L s inputs) (\<lambda>(logits, s').
     bindE (elbo_criterion L logits targets) (\<lambda>c.
     elbo_loop fl L k s' inputs targets
       (fl (fl (aggregated_elbo + c) + fl (fl (kl_weight L) * kl_div fl (elbo_modules L s'))))))"

text \<open>\<open>ELBOLoss.forward\<close>: the loss and the state the model is left in.\<close>

definition ELBOLoss_forward ::
  "(real \<Rightarrow> real) \<Rightarrow> ('s, 't) elbo_loss \<Rightarrow> 's \<Rightarrow> real tensor \<Rightarrow> 't \<Rightarrow> error + real \<times> 's" where
  "ELBOLoss_forward fl L s inputs targets =
     bindE (elbo_loop fl L (nat (num_samples L)) s inputs targets 0)
       (\<lambda>(aggregated_elbo, s').
     Inr (fl (aggregated_elbo / fl (real_of_int (num_samples L))), s'))"

text \<open>
  The specification's reading, to compare with: the list of the draws, each with its
  two terms \<open>criterion(model(inputs), targets)\<close> and \<open>kl_weight * kl_divergence()\<close>;
  their accumulation in turn, starting from \<open>a\<close>; and the mean, the accumulation from
  0 divided by the number of draws.
\<close>

fun elbo_draws ::
  "(real \<Rightarrow> real) \<Rightarrow> ('s, 't) elbo_loss \<Rightarrow> nat \<Rightarrow> 's \<Rightarrow> real tensor \<Rightarrow> 't \<Rightarrow>
   error + (real \<times> real) list \<times> 's" where
  "elbo_draws fl L 0 s inputs targets = Inr ([], s)"
| "elbo_draws fl L (Suc k) s inputs targets =
     bindE (elbo_model L s inputs) (\<lambda>(logits, s').
     bindE (elbo_criterion L logits targets) (\<lambda>c.
     bindE (elbo_draws fl L k s' inputs targets) (\<lambda>(ds, s'').
     Inr ((c, fl (fl (kl_weight L) * kl_div fl (elbo_modules L s'))) # ds, s''))))"

definition accumulate :: "(real \<Rightarrow> real) \<Rightarrow> real \<Rightarrow> (real \<times> real) list \<Rightarrow> real" where
  "accumulate fl a ds = foldl (\<lambda>a (c, w). fl (fl (a + c) + w)) a ds"

definition mean_of_draws ::
  "(real \<Rightarrow> real) \<Rightarrow> ('s, 't) elbo_loss \<Rightarrow> 's \<Rightarrow> real tensor \<Rightarrow> 't \<Rightarrow> error + real \<times> 's" where
  "mean_of_draws fl L s inputs targets =
     bindE (elbo_draws fl L (nat (num_samples L)) s inputs targets) (\<lambda>(ds, s').
     Inr (fl (accumulate fl 0 ds / fl (real (length ds))), s'))"

subsection \<open>Element-wise helpers of the evidential losses\<close>

definition tadd :: "real tensor \<Rightarrow> real tensor \<Rightarrow> error + real tensor" where
  "tadd a b = bop (+) a b"

definition tsub :: "real tensor \<Rightarrow> real tensor \<Rightarrow> error + real tensor" where
  "tsub a b = bop (-) a b"

definition tmul :: "real tensor \<Rightarrow> real tensor \<Rightarrow> error + real tensor" where
  "tmul a b = bop (*) a b"

definition tdiv :: "real tensor \<Rightarrow> real tensor \<Rightarrow> error + real tensor" where
  "tdiv a b = bop (/) a b"

definition smul :: "real \<Rightarrow> real tensor \<Rightarrow> real tensor" where
  "smul c t = map_tensor (\<lambda>x. c * x) t"

definition sadd :: "real tensor \<Rightarrow> real \<Rightarrow> real tensor" where
  "sadd t c = map_tensor (\<lambda>x. x + c) t"

definition tlog :: "real tensor \<Rightarrow> real tensor" where
  "tlog t = map_tensor ln t"

definition pow2 :: "real tensor \<Rightarrow> real tensor" where
  "pow2 t = map_tensor (\<lambda>x. x ^ 2) t"

definition relu :: "real tensor \<Rightarrow> real tensor" where
  "relu t = map_tensor (max 0) t"

definition valid_reduction :: "string \<Rightarrow> bool" where
  "valid_reduction reduction \<longleftrightarrow>
     \<not> (reduction \<noteq> ''none'' \<and> reduction \<noteq> ''mean'' \<and> reduction \<noteq> ''sum'')"

text \<open>The final \<open>if self.reduction == ...\<close> of both evidential losses.\<close>

definition reduce_loss :: "string \<Rightarrow> real tensor \<Rightarrow> real tensor" where
  "reduce_loss reduction loss_t =
     (if reduction = ''mean'' then mean_all loss_t
      else if reduction = ''sum'' then sum_all loss_t
      else loss_t)"

subsection \<open>NIGLoss\<close>

text \<open>
  \<open>torch.lgamma\<close> (and \<open>torch.digamma\<close> below) are not functions of the HOL library:
  they are parameters \<open>lg\<close> and \<open>dg\<close> of the losses that call them.
\<close>

record nig_loss =
  nig_reg_weight :: real
  nig_reduction :: string

definition NIGLoss_init :: "real \<Rightarrow> string \<Rightarrow> error + nig_loss" where
  "NIGLoss_init reg_weight reduction =
     (if reg_weight < 0
      then Inl (ValueError ''The regularization weight should be non-negative'')
      else if \<not> valid_reduction reduction
      then Inl (ValueError ''is not a valid value for reduction.'')
      else Inr \<lparr>nig_reg_weight = reg_weight, nig_reduction = reduction\<rparr>)"

definition nig_nll ::
  "(real \<Rightarrow> real) \<Rightarrow> real tensor \<Rightarrow> real tensor \<Rightarrow> real tensor \<Rightarrow> real tensor \<Rightarrow> real tensor \<Rightarrow>
   error + real tensor" where
  "nig_nll lg gamma v alpha beta targets =
     bindE (tmul (smul 2 beta) (sadd v 1)) (\<lambda>Gamma.
     bindE (tmul alpha (tlog Gamma)) (\<lambda>t2.
     bindE (tsub (smul (1 / 2) (tlog (map_tensor (\<lambda>x. pi / x) v))) t2) (\<lambda>s2.
     bindE (tsub targets gamma) (\<lambda>d.
     bindE (tmul v (pow2 d)) (\<lambda>vd.
     bindE (tadd Gamma vd) (\<lambda>g.
     bindE (tmul (sadd alpha (1 / 2)) (tlog g)) (\<lambda>t3.
     bindE (tadd s2 t3) (\<lambda>s3.
     bindE (tadd s3 (map_tensor lg alpha)) (\<lambda>s4.
     tsub s4 (map_tensor lg (sadd alpha (1 / 2))))))))))))"

definition nig_reg ::
  "real tensor \<Rightarrow> real tensor \<Rightarrow> real tensor \<Rightarrow> real tensor \<Rightarrow> error + real tensor" where
  "nig_reg gamma v alpha targets =
     bindE (tsub targets gamma) (\<lambda>d.
     bindE (sum_dim 1 True (map_tensor abs d)) (\<lambda>nrm.
     bindE (tadd (smul 2 v) alpha) (\<lambda>ev.
     tmul nrm ev)))"

definition NIGLoss_forward ::
  "(real \<Rightarrow> real) \<Rightarrow> nig_loss \<Rightarrow> real tensor \<Rightarrow> real tensor \<Rightarrow> real tensor \<Rightarrow> real tensor \<Rightarrow>
   real tensor \<Rightarrow> error + real tensor" where
  "NIGLoss_forward lg L gamma v alpha beta targets =
     bindE (nig_nll lg gamma v alpha beta targets) (\<lambda>loss_nll.
     bindE (nig_reg gamma v alpha targets) (\<lambda>loss_reg.
     bindE (tadd loss_nll (smul (nig_reg_weight L) loss_reg)) (\<lambda>loss_t.
     Inr (reduce_loss (nig_reduction L) loss_t))))"

subsection \<open>DECLoss\<close>

record dec_loss =
  reg_weight :: "real option"
  annealing_step :: "int option"
  reduction :: string
  loss_type :: string

definition DECLoss_init ::
  "int option \<Rightarrow> real option \<Rightarrow> string \<Rightarrow> string \<Rightarrow> error + dec_loss" where
  "DECLoss_init annealing_step_arg reg_weight_arg loss_type_arg reduction_arg =
     (if reg_weight_arg \<noteq> None \<and> the reg_weight_arg < 0
      then Inl (ValueError ''The regularization weight should be non-negative'')
      else if annealing_step_arg \<noteq> None \<and> the annealing_step_arg \<le> 0
      then Inl (ValueError ''The annealing step should be positive'')
      else if \<not> valid_reduction reduction_arg
      then Inl (ValueError ''is not a valid value for reduction.'')
      else if loss_type_arg \<notin> set [''mse'', ''log'', ''digamma'']
      then Inl (ValueError ''is not a valid value for mse/log/digamma loss.'')
      else Inr \<lparr>reg_weight = reg_weight_arg, annealing_step = annealing_step_arg,
                reduction = reduction_arg, loss_type = loss_type_arg\<rparr>)"

text \<open>\<open>evidence.size()[-1]\<close>: the empty size tuple of a 0-dimensional tensor has no last entry.\<close>

fun last_size :: "'a tensor \<Rightarrow> error + nat" where
  "last_size (Sc x) = Inl IndexError"
| "last_size (Tn []) = Inr 0"
| "last_size (Tn (Sc x # ts)) = Inr (Suc (length ts))"
| "last_size (Tn (Tn us # ts)) = last_size (Tn us)"

text \<open>\<open>F.one_hot(targets, C)\<close>: every label must lie in \<open>0..<C\<close>.\<close>

fun one_hot :: "nat \<Rightarrow> int tensor \<Rightarrow> error + int tensor" where
  "one_hot C (Sc i) =
     (if 0 \<le> i \<and> i < int C
      then Inr (Tn (map (\<lambda>j. Sc (if int j = i then 1 else 0)) [0..<C]))
      else Inl RuntimeError)"
| "one_hot C (Tn ts) = map_sum id Tn (mapM (one_hot C) ts)"

definition mse_loss :: "real tensor \<Rightarrow> real tensor \<Rightarrow> error + real tensor" where
  "mse_loss evidence targets =
     (let alpha = sadd (relu evidence) 1 in
      bindE (sum_dim 1 True alpha) (\<lambda>strength.
      bindE (tdiv alpha strength) (\<lambda>p.
      bindE (tsub targets p) (\<lambda>d.
      bindE (sum_dim 1 True (pow2 d)) (\<lambda>loglikelihood_err.
      bindE (tsub strength alpha) (\<lambda>sa.
      bindE (tmul alpha sa) (\<lambda>num.
      bindE (tmul strength strength) (\<lambda>ss.
      bindE (tmul ss (sadd strength 1)) (\<lambda>den.
      bindE (tdiv num den) (\<lambda>q.
      bindE (sum_dim 1 True q) (\<lambda>loglikelihood_var.
      tadd loglikelihood_err loglikelihood_var)))))))))))"

definition log_loss :: "real tensor \<Rightarrow> real tensor \<Rightarrow> error + real tensor" where
  "log_loss evidence targets =
     (let alpha = sadd (relu evidence) 1 in
      bindE (sum_dim (- 1) True alpha) (\<lambda>strength.
      bindE (tsub (tlog strength) (tlog alpha)) (\<lambda>d.
      bindE (tmul targets d) (\<lambda>m.
      sum_dim 1 True m))))"

definition digamma_loss ::
  "(real \<Rightarrow> real) \<Rightarrow> real tensor \<Rightarrow> real tensor \<Rightarrow> error + real tensor" where
  "digamma_loss dg evidence targets =
     (let alpha = sadd (relu evidence) 1 in
      bindE (sum_dim (- 1) True alpha) (\<lambda>strength.
      bindE (tsub (map_tensor dg strength) (map_tensor dg alpha)) (\<lambda>d.
      bindE (tmul targets d) (\<lambda>m.
      sum_dim 1 True m))))"

definition kldiv_reg ::
  "(real \<Rightarrow> real) \<Rightarrow> (real \<Rightarrow> real) \<Rightarrow> real tensor \<Rightarrow> real tensor \<Rightarrow> error + real tensor" where
  "kldiv_reg lg dg evidence targets =
     bindE (last_size evidence) (\<lambda>num_classes.
     let alpha = sadd (relu evidence) 1 in
     bindE (tmul (sadd alpha (- 1)) (map_tensor (\<lambda>x. 1 - x) targets)) (\<lambda>m.
     let kl_alpha = sadd m 1;
         ones = Tn [Tn (replicate num_classes (Sc 1))] in
     bindE (sum_dim 1 True kl_alpha) (\<lambda>sum_kl_alpha.
     bindE (sum_dim 1 True (map_tensor lg kl_alpha)) (\<lambda>a.
     bindE (tsub (map_tensor lg sum_kl_alpha) a) (\<lambda>f1.
     bindE (sum_dim 1 True (map_tensor lg ones)) (\<lambda>b.
     bindE (tadd f1 b) (\<lambda>f2.
     bindE (sum_dim 1 True ones) (\<lambda>c.
     bindE (tsub f2 (map_tensor lg c)) (\<lambda>first_term.
     bindE (tsub kl_alpha ones) (\<lambda>ka.
     bindE (tsub (map_tensor dg kl_alpha) (map_tensor dg sum_kl_alpha)) (\<lambda>dd.
     bindE (tmul ka dd) (\<lambda>pr.
     bindE (sum_dim 1 True pr) (\<lambda>second_term.
     tadd first_term second_term)))))))))))))"

text \<open>
  Python's \<open>x > 0\<close> and \<open>a / b\<close> on values that may be \<open>None\<close>: a \<open>None\<close> operand is a
  TypeError, a zero divisor a ZeroDivisionError.
\<close>

definition py_gt0 :: "'a::linordered_idom option \<Rightarrow> error + bool" where
  "py_gt0 x = (case x of None \<Rightarrow> Inl TypeError | Some v \<Rightarrow> Inr (0 < v))"

definition py_truediv :: "int option \<Rightarrow> int option \<Rightarrow> error + real" where
  "py_truediv a b =
     (case a of
        None \<Rightarrow> Inl TypeError
      | Some x \<Rightarrow>
          (case b of
             None \<Rightarrow> Inl TypeError
           | Some y \<Rightarrow> if y = 0 then Inl ZeroDivisionError
                       else Inr (real_of_int x / real_of_int y)))"

text \<open>
  The selection of \<open>annealing_coef\<close> in \<open>DECLoss.forward\<close>, with the short-circuit
  evaluation of \<open>and\<close> written out.
\<close>

definition annealed :: "dec_loss \<Rightarrow> int option \<Rightarrow> error + real" where
  "annealed L current_epoch =
     bindE (py_truediv current_epoch (annealing_step L)) (\<lambda>q. Inr (min 1 q))"

definition annealing_coef :: "dec_loss \<Rightarrow> int option \<Rightarrow> error + real" where
  "annealing_coef L current_epoch =
     (if reg_weight L = None \<and> annealing_step L = None then Inr 0
      else
        bindE (if reg_weight L \<noteq> None then Inr False
               else bindE (py_gt0 (annealing_step L)) (\<lambda>b.
                    if b then py_gt0 current_epoch else Inr False)) (\<lambda>second.
        if second then annealed L current_epoch
        else
          bindE (if annealing_step L \<noteq> None then Inr False
                 else py_gt0 (reg_weight L)) (\<lambda>third.
          if third then Inr (the (reg_weight L))
          else annealed L current_epoch)))"

text \<open>
  \<open>DECLoss.forward\<close>. The integer one-hot targets are promoted to floating point by
  the arithmetic. A loss type outside the three names would leave \<open>loss_dirichlet\<close>
  unbound at its use.
\<close>

definition DECLoss_forward ::
  "(real \<Rightarrow> real) \<Rightarrow> (real \<Rightarrow> real) \<Rightarrow> dec_loss \<Rightarrow> real tensor \<Rightarrow> int tensor \<Rightarrow> int option \<Rightarrow>
   error + real tensor" where
  "DECLoss_forward lg dg L evidence targets_arg current_epoch =
     (if annealing_step L \<noteq> None \<and> 0 < the (annealing_step L) \<and> current_epoch = None
      then Inl (ValueError ''The epoch num should be positive when annealing_step is settled'')
      else
        bindE (last_size evidence) (\<lambda>num_classes.
        bindE (one_hot num_classes targets_arg) (\<lambda>oh.
        let targets = map_tensor real_of_int oh in
        bindE (if loss_type L = ''mse'' then map_sum id Some (mse_loss evidence targets)
               else if loss_type L = ''log'' then map_sum id Some (log_loss evidence targets)
               else if loss_type L = ''digamma''
               then map_sum id Some (digamma_loss dg evidence targets)
               else Inr None) (\<lambda>loss_dirichlet.
        bindE (annealing_coef L current_epoch) (\<lambda>coef.
        bindE (kldiv_reg lg dg evidence targets) (\<lambda>loss_reg.
        case loss_dirichlet of
          None \<Rightarrow> Inl UnboundLocalError
        | Some ld \<Rightarrow>
            bindE (tadd ld (smul coef loss_reg)) (\<lambda>loss_t.
            Inr (reduce_loss (reduction L) loss_t))))))))"

section \<open>Notions used in the statements, and example inputs\<close>

text \<open>
  The condition of the calibrated branch of \<open>test_step\<close>: a calibration set is
  configured and the test-start hook has left a scaler and a calibrated model.
\<close>

definition has_calibration :: "routine \<Rightarrow> bool" where
  "has_calibration r \<longleftrightarrow>
     calibration_set r \<noteq> None \<and> scaler r \<noteq> Unset \<and> scaler r \<noteq> Attr None \<and>
     cal_model r \<noteq> Unset \<and> cal_model r \<noteq> Attr None"

text \<open>
  \<open>has_shape sh t\<close>: the tensor is rectangular with torch shape \<open>sh\<close>.
\<close>

fun has_shape :: "nat list \<Rightarrow> 'a tensor \<Rightarrow> bool" where
  "has_shape [] (Sc x) = True"
| "has_shape [] (Tn ts) = False"
| "has_shape (d # ds) (Sc x) = False"
| "has_shape (d # ds) (Tn ts) = (length ts = d \<and> list_all (has_shape ds) ts)"

text \<open>How many of the OOD-criterion flags are set.\<close>

definition flags_set :: "bool list \<Rightarrow> nat" where
  "flags_set bs = length (filter id bs)"

text \<open>
  A two-class routine with OOD detection and a calibration set, whose model returns
  its input as logits, and a temperature scaler that leaves the logits unchanged.
\<close>

definition ex_model :: model_obj where
  "ex_model = \<lparr>forward = (\<lambda>x. Inr x), feats_forward = None\<rparr>"

definition ex_args :: single_args where
  "ex_args = \<lparr>
     arg_num_classes = 2,
     arg_model = ex_model,
     arg_loss = OtherLoss (\<lambda>logits targets. Inr 0),
     arg_format_batch_fn = Inr,
     arg_mixtype = ''erm'',
     arg_mixmode = ''elem'',
     arg_dist_sim = ''emb'',
     arg_kernel_tau_max = 1,
     arg_kernel_tau_std = 1 / 2,
     arg_mixup_alpha = 0,
     arg_cutmix_alpha = 0,
     arg_ood_detection = True,
     arg_use_entropy = False,
     arg_use_logits = False,
     arg_calibration_set = Some [] \<rparr>"

definition ex_fit :: "forward_fn \<Rightarrow> dataset \<Rightarrow> error + forward_fn" where
  "ex_fit m cs = Inr (\<lambda>logits. Inr logits)"

definition ex_inputs :: "real tensor" where
  "ex_inputs = Tn [Tn [Sc 0, Sc 0]]"

definition ex_targets :: "int tensor" where
  "ex_targets = Tn [Sc 1]"

definition ex_batch :: "real tensor \<times> int tensor" where
  "ex_batch = (ex_inputs, ex_targets)"

text \<open>The routine after construction and the test-start hook, and after one test step.\<close>

definition ex_routine :: routine where
  "ex_routine = projr (bindE (single_init ex_args) (single_on_test_start ex_fit))"

definition ex_after :: "int option \<Rightarrow> routine" where
  "ex_after dataloader_idx = projr (single_test_step ex_routine ex_batch 0 dataloader_idx)"

text \<open>An ensemble of three estimators, and stacked logits of shape 12 x 5.\<close>

definition ex_ens_args :: ensemble_args where
  "ex_ens_args = single_args.extend ex_args (ensemble_args.fields 3 False False)"

definition ex_stacked :: "real tensor" where
  "ex_stacked = Tn (map (\<lambda>i. Tn (map (\<lambda>j. Sc (real (10 * i + j))) [0..<5])) [0..<12])"

text \<open>A \<open>DECLoss\<close> with the log fit term and mean reduction; evidence and labels.\<close>

definition ex_dec :: "int option \<Rightarrow> real option \<Rightarrow> dec_loss" where
  "ex_dec step rw =
     \<lparr>reg_weight = rw, annealing_step = step, reduction = ''mean'', loss_type = ''log''\<rparr>"

definition ex_evidence :: "real tensor" where
  "ex_evidence = Tn [Tn [Sc 1, Sc 2]]"

definition ex_labels :: "int tensor" where
  "ex_labels = Tn [Sc 0]"

text \<open>
  A deterministic model for \<open>ELBOLoss\<close>: its state counts the forward passes, its
  logits are its inputs, and its two Bayesian modules always cache the same terms.
\<close>

definition ex_bnn :: "nat \<Rightarrow> real tensor \<Rightarrow> error + real tensor \<times> nat" where
  "ex_bnn s x = Inr (x, Suc s)"

definition ex_modules :: "nat \<Rightarrow> module list" where
  "ex_modules s = [Bayesian 3 1, Plain, Bayesian 1 (1 / 2)]"

definition ex_criterion :: "real tensor \<Rightarrow> int tensor \<Rightarrow> error + real" where
  "ex_criterion logits targets = Inr 1"

definition ex_elbo :: "int \<Rightarrow> (nat, int tensor) elbo_loss" where
  "ex_elbo k =
     \<lparr>elbo_model = ex_bnn, elbo_modules = ex_modules, elbo_criterion = ex_criterion,
      kl_weight = 2, num_samples = k\<rparr>"

text \<open>A \<open>NIGLoss\<close> with weight 1/2, and 2 x 2 inputs.\<close>

definition ex_nig :: "string \<Rightarrow> nig_loss" where
  "ex_nig red = \<lparr>nig_reg_weight = 1 / 2, nig_reduction = red\<rparr>"

definition ex_gamma :: "real tensor" where
  "ex_gamma = Tn [Tn [Sc 0, Sc 1], Tn [Sc 1, Sc 0]]"

definition ex_ones :: "real tensor" where
  "ex_ones = Tn [Tn [Sc 1, Sc 1], Tn [Sc 1, Sc 1]]"

definition ex_nig_targets :: "real tensor" where
  "ex_nig_targets = Tn [Tn [Sc 1, Sc 1], Tn [Sc 1, Sc 2]]"

text \<open>Stacked logits of three estimators on a batch of one sample with two classes.\<close>

definition ex_ens_logits :: "real tensor" where
  "ex_ens_logits = Tn [Tn [Sc 0, Sc 0], Tn [Sc 0, Sc 0], Tn [Sc 0, Sc 0]]"

definition ex_ens_routine :: ens_routine where
  "ex_ens_routine = projr (ensemble_init (ex_ens_args\<lparr>arg_use_entropy := True\<rparr>))"

text \<open>
  The reshape as the specification words it: the tensor of shape \<open>[batch, n, ...]\<close>
  whose row \<open>[b, e]\<close> is row \<open>e * batch + b\<close> of the stacked tensor.
\<close>

definition spec_reshape :: "nat \<Rightarrow> nat \<Rightarrow> 'a tensor \<Rightarrow> 'a tensor" where
  "spec_reshape n batch t =
     Tn (map (\<lambda>b. Tn (map (\<lambda>e. un_Tn t ! (e * batch + b)) [0..<n])) [0..<batch])"

text \<open>
  Ensemble routines of three and of two estimators, and stacked logits of two
  estimators on a batch of two samples, where the estimators differ.
\<close>

definition ex_ens3 :: ens_routine where
  "ex_ens3 = projr (ensemble_init ex_ens_args)"

definition ex_ens2 :: ens_routine where
  "ex_ens2 = projr (ensemble_init (ex_ens_args\<lparr>arg_num_estimators := 2\<rparr>))"

definition ex_stacked2 :: "real tensor" where
  "ex_stacked2 = Tn [Tn [Sc 0, Sc 0], Tn [Sc 0, Sc 0], Tn [Sc (ln 3), Sc 0], Tn [Sc (ln 3), Sc 0]]"

definition ex_targets2 :: "int tensor" where
  "ex_targets2 = Tn [Sc 1, Sc 0]"

text \<open>
  An \<open>ELBOLoss\<close> whose criterion always returns the float32 nearest to 0.1, on a model
  without Bayesian modules, with KL weight 0.
\<close>

definition ex_criterion32 :: "real tensor \<Rightarrow> int tensor \<Rightarrow> error + real" where
  "ex_criterion32 logits targets = Inr (13421773 / 134217728)"

definition ex_no_modules :: "nat \<Rightarrow> module list" where
  "ex_no_modules s = [Plain]"

definition ex_elbo32 :: "int \<Rightarrow> (nat, int tensor) elbo_loss" where
  "ex_elbo32 k =
     \<lparr>elbo_model = ex_bnn, elbo_modules = ex_no_modules, elbo_criterion = ex_criterion32,
      kl_weight = 0, num_samples = k\<rparr>"

section \<open>General lemmas\<close>

lemma bindE_eq_Inr: "bindE m f = Inr y \<longleftrightarrow> (\<exists>x. m = Inr x \<and> f x = Inr y)"
  by (cases m) simp_all

lemmas ex_defs = single_init_def ex_args_def single_on_test_start_def ex_fit_def
  single_test_step_def ex_batch_def ex_inputs_def ex_targets_def ex_model_def
  single_ood_values_def single_probs_def max_dim_def norm_dim_def neg_def
  calibrated_update_def route_batch_def select_mixup_def

lemma ex_routine_reached:
  "bindE (single_init ex_args) (single_on_test_start ex_fit) = Inr ex_routine"
  by (simp add: ex_routine_def ex_defs)

lemma ex_stacked_unfold:
  "ex_stacked =
     Tn (map (\<lambda>i. Tn (map (\<lambda>j. Sc (real (10 * i + j))) [0, 1, 2, 3, 4]))
           [0, 1, 2, 3, 4, 5, 6, 7, 8, 9, 10, 11])"
  unfolding ex_stacked_def by (simp add: upt_rec)

section \<open>Routing of test batches\<close>

lemma calibrated_update_cases:
  assumes "calibrated_update r inputs targets = Inr r1"
  shows "if has_calibration r
         then \<exists>cm cal_logits p. cal_model r = Attr (Some cm) \<and> cm inputs = Inr cal_logits \<and>
                ts_cls_metrics r = Some p \<and>
                r1 = r\<lparr>ts_cls_metrics := Some (p @ [(softmax_last cal_logits, targets)])\<rparr>
         else r1 = r"
  using assms
  by (auto simp: calibrated_update_def has_calibration_def bindE_eq_Inr
      split: if_splits attr.splits option.splits)

lemma calibrated_update_fields:
  assumes "calibrated_update r inputs targets = Inr r1"
  shows "test_cls_metrics r1 = test_cls_metrics r \<and> test_ood_metrics r1 = test_ood_metrics r \<and>
         ood_detection r1 = ood_detection r"
  using calibrated_update_cases[OF assms] by (auto split: if_splits)

lemma route_batch_zero:
  assumes "route_batch r probs ood targets (Some 0) = Inr r'"
  shows "test_cls_metrics r' = test_cls_metrics r @ [(probs, targets)] \<and>
         (if ood_detection r
          then \<exists>p. test_ood_metrics r = Some p \<and>
                 test_ood_metrics r' = Some (p @ [(ood, zeros_like targets)])
          else test_ood_metrics r' = test_ood_metrics r)"
  using assms
  by (auto simp: route_batch_def Let_def split: if_splits option.splits)

lemma route_batch_one:
  assumes "route_batch r probs ood targets (Some 1) = Inr r'" "ood_detection r"
  shows "test_cls_metrics r' = test_cls_metrics r \<and>
         (\<exists>p. test_ood_metrics r = Some p \<and>
                 test_ood_metrics r' = Some (p @ [(ood, ones_like targets)]))"
  using assms
  by (auto simp: route_batch_def Let_def split: if_splits option.splits)

lemma route_batch_other:
  assumes "route_batch r probs ood targets (Some i) = Inr r'" "1 < i"
  shows "r' = r"
  using assms
  by (auto simp: route_batch_def Let_def split: if_splits option.splits)

lemma route_batch_ts:
  assumes "route_batch r probs ood targets idx = Inr r'"
  shows "ts_cls_metrics r' = ts_cls_metrics r \<and> calibration_set r' = calibration_set r \<and>
         scaler r' = scaler r \<and> cal_model r' = cal_model r"
  using assms by (auto simp: route_batch_def Let_def split: if_splits option.splits)

text \<open>
  C1, as the claim states it, fails: a batch with dataloader index 2 is not a no-op.
  On the example routine (constructed with a calibration set, test-start hook run) the
  step at index 2 adds the batch to the calibrated-metric pool, which was empty.
\<close>

theorem index_beyond_one_not_noop:
  "single_test_step ex_routine ex_batch 0 (Some 2) \<noteq> Inr ex_routine \<and>
   ts_cls_metrics ex_routine = Some [] \<and>
   map_sum id ts_cls_metrics (single_test_step ex_routine ex_batch 0 (Some 2)) =
     Inr (Some [(Tn [Tn [Sc (1 / 2), Sc (1 / 2)]], Tn [Sc 1])])"
proof -
  have a: "ts_cls_metrics ex_routine = Some []"
    by (simp add: ex_routine_def ex_defs)
  have b: "map_sum id ts_cls_metrics (single_test_step ex_routine ex_batch 0 (Some 2)) =
     Inr (Some [(Tn [Tn [Sc (1 / 2), Sc (1 / 2)]], Tn [Sc 1])])"
    by (simp add: ex_routine_def ex_defs)
  have "single_test_step ex_routine ex_batch 0 (Some 2) \<noteq> Inr ex_routine"
  proof
    assume "single_test_step ex_routine ex_batch 0 (Some 2) = Inr ex_routine"
    with a b show False by simp
  qed
  with a b show ?thesis by simp
qed

text \<open>
  C1, amended. Whenever the single-model test step returns: with dataloader index 0
  the batch is added to the in-distribution classification pool and, when OOD
  detection is enabled, its OOD scores are added to the OOD pool with label 0
  (in-distribution); with index 1 and OOD detection enabled its scores are added to
  the OOD pool with label 1 (OOD) and the classification pool is unchanged; with an
  index greater than 1 the only pool that can change is the calibrated-metric pool,
  which receives the batch exactly when the routine has a calibrated model, and
  otherwise the step changes nothing.
\<close>

theorem test_step_routing:
  assumes "single_test_step r (inputs, targets) batch_idx dataloader_idx = Inr r'"
  shows "\<exists>logits ood_values.
     forward (model r) inputs = Inr logits \<and>
     single_ood_values r logits (single_probs (binary_cls r) logits) = Inr ood_values \<and>
     (dataloader_idx = Some 0 \<longrightarrow>
        test_cls_metrics r' =
          test_cls_metrics r @ [(single_probs (binary_cls r) logits, targets)] \<and>
        (if ood_detection r
         then \<exists>p. test_ood_metrics r = Some p \<and>
                test_ood_metrics r' = Some (p @ [(ood_values, zeros_like targets)])
         else test_ood_metrics r' = test_ood_metrics r)) \<and>
     (dataloader_idx = Some 1 \<and> ood_detection r \<longrightarrow>
        test_cls_metrics r' = test_cls_metrics r \<and>
        (\<exists>p. test_ood_metrics r = Some p \<and>
              test_ood_metrics r' = Some (p @ [(ood_values, ones_like targets)]))) \<and>
     (\<forall>i. dataloader_idx = Some i \<and> 1 < i \<longrightarrow>
        (if has_calibration r
         then \<exists>cm cal_logits p. cal_model r = Attr (Some cm) \<and> cm inputs = Inr cal_logits \<and>
                ts_cls_metrics r = Some p \<and>
                r' = r\<lparr>ts_cls_metrics := Some (p @ [(softmax_last cal_logits, targets)])\<rparr>
         else r' = r))"
proof -
  from assms obtain logits ood_values r1 where
    fw: "forward (model r) inputs = Inr logits" and
    ov: "single_ood_values r logits (single_probs (binary_cls r) logits) = Inr ood_values" and
    cu: "calibrated_update r inputs targets = Inr r1" and
    rb: "route_batch r1 (single_probs (binary_cls r) logits) ood_values targets dataloader_idx
           = Inr r'"
    by (auto simp: single_test_step_def bindE_eq_Inr)
  note same = calibrated_update_fields[OF cu]
  have zero: "dataloader_idx = Some 0 \<longrightarrow>
        test_cls_metrics r' =
          test_cls_metrics r @ [(single_probs (binary_cls r) logits, targets)] \<and>
        (if ood_detection r
         then \<exists>p. test_ood_metrics r = Some p \<and>
                test_ood_metrics r' = Some (p @ [(ood_values, zeros_like targets)])
         else test_ood_metrics r' = test_ood_metrics r)"
    using route_batch_zero[of r1 _ ood_values targets r'] rb same by auto
  have one: "dataloader_idx = Some 1 \<and> ood_detection r \<longrightarrow>
        test_cls_metrics r' = test_cls_metrics r \<and>
        (\<exists>p. test_ood_metrics r = Some p \<and>
              test_ood_metrics r' = Some (p @ [(ood_values, ones_like targets)]))"
    using route_batch_one[of r1 _ ood_values targets r'] rb same by auto
  have other: "\<forall>i. dataloader_idx = Some i \<and> 1 < i \<longrightarrow>
        (if has_calibration r
         then \<exists>cm cal_logits p. cal_model r = Attr (Some cm) \<and> cm inputs = Inr cal_logits \<and>
                ts_cls_metrics r = Some p \<and>
                r' = r\<lparr>ts_cls_metrics := Some (p @ [(softmax_last cal_logits, targets)])\<rparr>
         else r' = r)"
  proof (intro allI impI)
    fix i assume "dataloader_idx = Some i \<and> 1 < i"
    then have eq: "r' = r1" using route_batch_other rb by blast
    show "if has_calibration r
         then \<exists>cm cal_logits p. cal_model r = Attr (Some cm) \<and> cm inputs = Inr cal_logits \<and>
                ts_cls_metrics r = Some p \<and>
                r' = r\<lparr>ts_cls_metrics := Some (p @ [(softmax_last cal_logits, targets)])\<rparr>
         else r' = r"
      unfolding eq by (rule calibrated_update_cases[OF cu])
  qed
  from fw ov zero one other show ?thesis by blast
qed

lemma ex_cal: "has_calibration ex_routine"
  by (simp add: has_calibration_def ex_routine_def ex_defs)

lemma ex_fields:
  "test_cls_metrics ex_routine = []" "test_ood_metrics ex_routine = Some []"
  "ood_detection ex_routine" "binary_cls ex_routine = False"
  "model ex_routine = ex_model" "ts_cls_metrics ex_routine = Some []"
  by (simp_all add: ex_routine_def ex_defs)

lemma ex_step_ok:
  "single_test_step ex_routine (ex_inputs, ex_targets) 0 idx = Inr (ex_after idx)"
  by (simp add: ex_after_def ex_routine_def ex_defs)

lemma ex_scores:
  "single_probs False ex_inputs = Tn [Tn [Sc (1 / 2), Sc (1 / 2)]]"
  "single_ood_values ex_routine ex_inputs (Tn [Tn [Sc (1 / 2), Sc (1 / 2)]]) =
     Inr (Tn [Sc (- (1 / 2))])"
  by (simp_all add: ex_routine_def ex_defs)

lemma ex_cal_model: "cal_model ex_routine = Attr (Some (\<lambda>x. bindE (Inr x) (\<lambda>l. Inr l)))"
  by (simp add: ex_routine_def ex_defs)

theorem test_step_routing_witness:
  "single_test_step ex_routine (ex_inputs, ex_targets) 0 (Some 0) = Inr (ex_after (Some 0)) \<and>
   test_cls_metrics (ex_after (Some 0)) = [(Tn [Tn [Sc (1 / 2), Sc (1 / 2)]], Tn [Sc 1])] \<and>
   test_ood_metrics (ex_after (Some 0)) = Some [(Tn [Sc (- (1 / 2))], Tn [Sc 0])] \<and>
   single_test_step ex_routine (ex_inputs, ex_targets) 0 (Some 1) = Inr (ex_after (Some 1)) \<and>
   test_cls_metrics (ex_after (Some 1)) = [] \<and>
   test_ood_metrics (ex_after (Some 1)) = Some [(Tn [Sc (- (1 / 2))], Tn [Sc 1])] \<and>
   single_test_step ex_routine (ex_inputs, ex_targets) 0 (Some 2) = Inr (ex_after (Some 2)) \<and>
   has_calibration ex_routine \<and>
   ex_after (Some 2) =
     ex_routine\<lparr>ts_cls_metrics := Some [(Tn [Tn [Sc (1 / 2), Sc (1 / 2)]], Tn [Sc 1])]\<rparr>"
proof -
  note f = ex_fields ex_scores ex_cal
  have z: "test_cls_metrics (ex_after (Some 0)) =
             [(Tn [Tn [Sc (1 / 2), Sc (1 / 2)]], Tn [Sc 1])] \<and>
           test_ood_metrics (ex_after (Some 0)) = Some [(Tn [Sc (- (1 / 2))], Tn [Sc 0])]"
    using test_step_routing[OF ex_step_ok[of "Some 0"]]
    by (auto simp: f ex_model_def ex_targets_def zeros_like_def)
  have o: "test_cls_metrics (ex_after (Some 1)) = [] \<and>
           test_ood_metrics (ex_after (Some 1)) = Some [(Tn [Sc (- (1 / 2))], Tn [Sc 1])]"
    using test_step_routing[OF ex_step_ok[of "Some 1"]]
    by (auto simp: f ex_model_def ex_targets_def ones_like_def)
  have t: "ex_after (Some 2) =
     ex_routine\<lparr>ts_cls_metrics := Some [(Tn [Tn [Sc (1 / 2), Sc (1 / 2)]], Tn [Sc 1])]\<rparr>"
    using test_step_routing[OF ex_step_ok[of "Some 2"]]
    by (auto simp: f ex_cal_model ex_inputs_def ex_targets_def)
  from z o t ex_step_ok ex_cal show ?thesis by simp
qed

section \<open>The calibrated pool\<close>

lemma on_test_start_calibration:
  assumes "calibration_set r = Some cs" "single_on_test_start fit r = Inr r1"
  shows "has_calibration r1 \<and> ts_cls_metrics r1 = ts_cls_metrics r \<and>
         (\<exists>sc. fit (forward (model r)) cs = Inr sc \<and>
               cal_model r1 = Attr (Some (\<lambda>x. bindE (forward (model r) x) sc)))"
  using assms by (auto simp: single_on_test_start_def has_calibration_def bindE_eq_Inr)

lemma test_step_calibrated:
  assumes "has_calibration r"
    and "single_test_step r (inputs, targets) batch_idx dataloader_idx = Inr r'"
  shows "has_calibration r' \<and>
         (\<exists>cm cal_logits p. cal_model r = Attr (Some cm) \<and> cm inputs = Inr cal_logits \<and>
            ts_cls_metrics r = Some p \<and>
            ts_cls_metrics r' = Some (p @ [(softmax_last cal_logits, targets)]))"
proof -
  from assms(2) obtain logits ood_values r1 where
    cu: "calibrated_update r inputs targets = Inr r1" and
    rb: "route_batch r1 (single_probs (binary_cls r) logits) ood_values targets dataloader_idx
           = Inr r'"
    by (auto simp: single_test_step_def bindE_eq_Inr)
  from calibrated_update_cases[OF cu] assms(1) obtain cm cal_logits p where
    c: "cal_model r = Attr (Some cm)" "cm inputs = Inr cal_logits" "ts_cls_metrics r = Some p"
       "r1 = r\<lparr>ts_cls_metrics := Some (p @ [(softmax_last cal_logits, targets)])\<rparr>"
    by auto
  from c(4) assms(1) have h1: "has_calibration r1"
    by (simp add: has_calibration_def)
  from route_batch_ts[OF rb] h1 have "has_calibration r'"
    by (simp add: has_calibration_def)
  moreover have "ts_cls_metrics r' = Some (p @ [(softmax_last cal_logits, targets)])"
    using route_batch_ts[OF rb] c(4) by simp
  ultimately show ?thesis using c(1,2,3) by blast
qed

text \<open>
  C9. With a calibration set configured, a test-start hook that returns leaves a
  calibrated model (the model followed by the fitted scaler). From then on every test
  step that returns, whatever its dataloader index (0, 1, beyond 1 or none), has
  forwarded the inputs through the calibrated model and appended the softmax of the
  calibrated logits, with the batch's targets, to the calibrated-metric pool; and the
  calibrated model is still there for the next batch.
\<close>

theorem calibrated_pool_every_index:
  "(calibration_set r0 = Some cs \<and> single_on_test_start fit r0 = Inr r \<longrightarrow>
      has_calibration r \<and> ts_cls_metrics r = ts_cls_metrics r0 \<and>
      (\<exists>sc. fit (forward (model r0)) cs = Inr sc \<and>
            cal_model r = Attr (Some (\<lambda>x. bindE (forward (model r0) x) sc)))) \<and>
   (has_calibration r \<and>
    single_test_step r (inputs, targets) batch_idx dataloader_idx = Inr r' \<longrightarrow>
      has_calibration r' \<and>
      (\<exists>cm cal_logits p. cal_model r = Attr (Some cm) \<and> cm inputs = Inr cal_logits \<and>
         ts_cls_metrics r = Some p \<and>
         ts_cls_metrics r' = Some (p @ [(softmax_last cal_logits, targets)])))"
  using on_test_start_calibration test_step_calibrated by blast

theorem calibrated_pool_every_index_witness:
  "calibration_set (projr (single_init ex_args)) = Some [] \<and>
   single_on_test_start ex_fit (projr (single_init ex_args)) = Inr ex_routine \<and>
   has_calibration ex_routine \<and>
   single_test_step ex_routine (ex_inputs, ex_targets) 0 (Some 1) = Inr (ex_after (Some 1)) \<and>
   ts_cls_metrics (ex_after (Some 1)) = Some [(Tn [Tn [Sc (1 / 2), Sc (1 / 2)]], Tn [Sc 1])]"
proof -
  have a: "calibration_set (projr (single_init ex_args)) = Some []"
    by (simp add: ex_defs)
  have b: "single_on_test_start ex_fit (projr (single_init ex_args)) = Inr ex_routine"
    by (simp add: ex_routine_def ex_defs)
  have h: "has_calibration ex_routine"
    using calibrated_pool_every_index[of "projr (single_init ex_args)" "[]" ex_fit ex_routine]
      a b by blast
  from calibrated_pool_every_index[of _ _ _ ex_routine ex_inputs ex_targets 0 "Some 1"
      "ex_after (Some 1)"] h ex_step_ok[of "Some 1"]
  obtain cm cal_logits p where
    "cal_model ex_routine = Attr (Some cm)" "cm ex_inputs = Inr cal_logits"
    "ts_cls_metrics ex_routine = Some p"
    "ts_cls_metrics (ex_after (Some 1)) = Some (p @ [(softmax_last cal_logits, ex_targets)])"
    by blast
  with ex_cal_model ex_fields(6)
  have "ts_cls_metrics (ex_after (Some 1)) =
          Some [(Tn [Tn [Sc (1 / 2), Sc (1 / 2)]], Tn [Sc 1])]"
    by (auto simp: ex_inputs_def ex_targets_def)
  with a b h ex_step_ok[of "Some 1"] show ?thesis by blast
qed

section \<open>Construction-time validation\<close>

lemma single_init_ood:
  "single_init a = Inl (ValueError ood_criterion_msg) \<longleftrightarrow>
     arg_use_logits a \<and> arg_use_entropy a"
  by (auto simp: single_init_def ood_criterion_msg_def alpha_msg_def)

lemma single_init_ok:
  "(\<exists>r. single_init a = Inr r) \<longleftrightarrow>
     \<not> (arg_use_logits a \<and> arg_use_entropy a) \<and>
     \<not> (arg_mixup_alpha a < 0 \<or> arg_cutmix_alpha a < 0)"
  by (auto simp: single_init_def)

lemma single_init_flags:
  "single_init a = Inr r \<Longrightarrow>
     use_logits r = arg_use_logits a \<and> use_entropy r = arg_use_entropy a"
  by (auto simp: single_init_def split: if_splits)

lemma single_init_error:
  "single_init a = Inl e \<Longrightarrow> e = ValueError ood_criterion_msg \<or> e = ValueError alpha_msg"
  by (auto simp: single_init_def split: if_splits)

lemma truncate_fields [simp]:
  "arg_use_logits (single_args.truncate a) = arg_use_logits a"
  "arg_use_entropy (single_args.truncate a) = arg_use_entropy a"
  "arg_mixup_alpha (single_args.truncate a) = arg_mixup_alpha a"
  "arg_cutmix_alpha (single_args.truncate a) = arg_cutmix_alpha a"
  by (simp_all add: single_args.truncate_def)

lemma ensemble_init_many:
  assumes "2 \<le> flags_set [arg_use_logits a, arg_use_entropy a, arg_use_mi a,
                            arg_use_variation_ratio a]"
  shows "\<exists>msg. ensemble_init a = Inl (ValueError msg)"
proof (cases "single_init (single_args.truncate a)")
  case (Inl e)
  then show ?thesis
    using single_init_error[OF Inl] by (auto simp: ensemble_init_def)
next
  case (Inr r)
  from single_init_flags[OF Inr] assms show ?thesis
    by (auto simp: ensemble_init_def Inr flags_set_def split: if_splits)
qed

lemma ensemble_init_few:
  assumes "flags_set [arg_use_logits a, arg_use_entropy a, arg_use_mi a,
                      arg_use_variation_ratio a] \<le> 1"
  shows "ensemble_init a \<noteq> Inl (ValueError ood_criterion_msg)"
proof (cases "single_init (single_args.truncate a)")
  case (Inl e)
  have "\<not> (arg_use_logits a \<and> arg_use_entropy a)"
    using assms by (auto simp: flags_set_def)
  then have "e \<noteq> ValueError ood_criterion_msg"
    using Inl single_init_ood[of "single_args.truncate a"] by auto
  then show ?thesis
    using Inl by (auto simp: ensemble_init_def)
next
  case (Inr r)
  from single_init_flags[OF Inr] assms show ?thesis
    by (auto simp: ensemble_init_def Inr flags_set_def split: if_splits)
qed

lemma ensemble_init_returns:
  assumes "flags_set [arg_use_logits a, arg_use_entropy a, arg_use_mi a,
                      arg_use_variation_ratio a] \<le> 1"
    and "0 \<le> arg_mixup_alpha a" and "0 \<le> arg_cutmix_alpha a"
  shows "\<exists>r. ensemble_init a = Inr r"
proof -
  have "\<not> (arg_use_logits a \<and> arg_use_entropy a)"
    using assms(1) by (auto simp: flags_set_def)
  then obtain r where r: "single_init (single_args.truncate a) = Inr r"
    using assms(2,3) single_init_ok[of "single_args.truncate a"] by auto
  from single_init_flags[OF r] assms(1) show ?thesis
    by (auto simp: ensemble_init_def r flags_set_def split: if_splits)
qed

text \<open>
  C2. Constructing the single-model routine with both \<open>use_logits\<close> and \<open>use_entropy\<close>
  raises the ValueError of the OOD criteria, and with at most one of them it does not
  raise that error. Constructing the ensemble routine with two or more of its four
  flags raises a ValueError; with at most one flag it does not raise the error of the
  OOD criteria, and it returns a routine when the two alphas are not negative.
\<close>

theorem ood_criterion_exclusive:
  "(arg_use_logits a \<and> arg_use_entropy a \<longrightarrow>
      single_init a = Inl (ValueError ood_criterion_msg)) \<and>
   (\<not> (arg_use_logits a \<and> arg_use_entropy a) \<longrightarrow>
      single_init a \<noteq> Inl (ValueError ood_criterion_msg)) \<and>
   (2 \<le> flags_set [arg_use_logits e, arg_use_entropy e, arg_use_mi e,
                    arg_use_variation_ratio e] \<longrightarrow>
      (\<exists>msg. ensemble_init e = Inl (ValueError msg))) \<and>
   (flags_set [arg_use_logits e, arg_use_entropy e, arg_use_mi e,
               arg_use_variation_ratio e] \<le> 1 \<longrightarrow>
      ensemble_init e \<noteq> Inl (ValueError ood_criterion_msg) \<and>
      (0 \<le> arg_mixup_alpha e \<and> 0 \<le> arg_cutmix_alpha e \<longrightarrow> (\<exists>r. ensemble_init e = Inr r)))"
  using single_init_ood[of a] ensemble_init_many[of e] ensemble_init_few[of e]
    ensemble_init_returns[of e]
  by blast

theorem ood_criterion_exclusive_witness:
  "single_init (ex_args\<lparr>arg_use_logits := True, arg_use_entropy := True\<rparr>) =
     Inl (ValueError ood_criterion_msg) \<and>
   single_init ex_args \<noteq> Inl (ValueError ood_criterion_msg) \<and>
   (\<exists>msg. ensemble_init (ex_ens_args\<lparr>arg_use_mi := True, arg_use_variation_ratio := True\<rparr>) =
      Inl (ValueError msg)) \<and>
   ensemble_init (ex_ens_args\<lparr>arg_use_mi := True\<rparr>) \<noteq> Inl (ValueError ood_criterion_msg) \<and>
   (\<exists>r. ensemble_init (ex_ens_args\<lparr>arg_use_mi := True\<rparr>) = Inr r)"
proof -
  have 1: "single_init (ex_args\<lparr>arg_use_logits := True, arg_use_entropy := True\<rparr>) =
     Inl (ValueError ood_criterion_msg)"
    using ood_criterion_exclusive[of "ex_args\<lparr>arg_use_logits := True, arg_use_entropy := True\<rparr>"]
    by simp
  have 2: "single_init ex_args \<noteq> Inl (ValueError ood_criterion_msg)"
    using ood_criterion_exclusive[of ex_args] by (simp add: ex_args_def)
  have 3: "\<exists>msg. ensemble_init (ex_ens_args\<lparr>arg_use_mi := True, arg_use_variation_ratio := True\<rparr>) =
      Inl (ValueError msg)"
    using ood_criterion_exclusive[of _
        "ex_ens_args\<lparr>arg_use_mi := True, arg_use_variation_ratio := True\<rparr>"]
    by (simp add: flags_set_def)
  have 4: "ensemble_init (ex_ens_args\<lparr>arg_use_mi := True\<rparr>) \<noteq> Inl (ValueError ood_criterion_msg) \<and>
      (\<exists>r. ensemble_init (ex_ens_args\<lparr>arg_use_mi := True\<rparr>) = Inr r)"
    using ood_criterion_exclusive[of _ "ex_ens_args\<lparr>arg_use_mi := True\<rparr>"]
    by (simp add: flags_set_def ex_ens_args_def ex_args_def single_args.extend_def
        ensemble_args.fields_def)
  from 1 2 3 4 show ?thesis by simp
qed

text \<open>
  C8 fails on the code: a mixing-policy name outside the six supported ones is not
  rejected by the constructor. When the other arguments are valid, construction
  returns a routine, and every later training step of that routine raises an
  AttributeError, because \<open>self.mixup\<close> was never assigned.
\<close>

theorem unknown_mixtype_fails_in_training_step:
  assumes "arg_mixtype a \<notin>
             set [''erm'', ''timm'', ''mixup'', ''mixup_io'', ''regmixup'', ''kernel_warping'']"
    and "\<not> (arg_use_logits a \<and> arg_use_entropy a)"
    and "0 \<le> arg_mixup_alpha a" and "0 \<le> arg_cutmix_alpha a"
  shows "\<exists>r. single_init a = Inr r \<and>
           (\<forall>run_policy batch batch_idx.
              single_training_step run_policy r batch batch_idx =
                Inl (AttributeError ''mixup''))"
  using assms
  by (auto simp: single_init_def select_mixup_def single_training_step_def call_mixup_def)

theorem unknown_mixtype_witness:
  "\<exists>r. single_init (ex_args\<lparr>arg_mixtype := ''cutmix''\<rparr>) = Inr r \<and>
      single_training_step (\<lambda>p b f. Inr b) r (ex_inputs, Labels ex_targets) 0
        = Inl (AttributeError ''mixup'')"
proof -
  have "\<exists>r. single_init (ex_args\<lparr>arg_mixtype := ''cutmix''\<rparr>) = Inr r \<and>
           (\<forall>run_policy batch batch_idx.
              single_training_step run_policy r batch batch_idx =
                Inl (AttributeError ''mixup''))"
    by (rule unknown_mixtype_fails_in_training_step) (simp_all add: ex_args_def)
  then show ?thesis by blast
qed

section \<open>The reshape of stacked logits\<close>

lemma split_rows_length: "length (split_rows n b rows) = n"
  by (simp add: split_rows_def)

lemma split_rows_nth:
  assumes "e < n" "length rows = n * b"
  shows "length (split_rows n b rows ! e) = b"
    and "j < b \<Longrightarrow> split_rows n b rows ! e ! j = rows ! (e * b + j)"
proof -
  have le: "e * b + b \<le> n * b"
    using assms(1) by (metis Suc_leI mult_Suc mult_le_mono1 add.commute)
  then have "b \<le> length rows - e * b"
    using assms(2) by simp
  then show "length (split_rows n b rows ! e) = b"
    using assms(1) by (simp add: split_rows_def)
  show "j < b \<Longrightarrow> split_rows n b rows ! e ! j = rows ! (e * b + j)"
    using assms(1) le assms(2) by (simp add: split_rows_def)
qed

lemma transpose_split_rows:
  assumes "0 < n" "length rows = n * b"
  shows "transpose (split_rows n b rows) =
         map (\<lambda>i. map (\<lambda>e. rows ! (e * b + i)) [0..<n]) [0..<b]"
proof -
  have "transpose (split_rows n b rows) =
        map (\<lambda>i. map (\<lambda>j. split_rows n b rows ! j ! i) [0..<length (split_rows n b rows)])
          [0..<b]"
  proof (rule transpose_rectangle)
    show "split_rows n b rows = [] \<Longrightarrow> b = 0"
      using assms(1) split_rows_length[of n b rows] by auto
    show "\<And>i. i < length (split_rows n b rows) \<Longrightarrow> length (split_rows n b rows ! i) = b"
      using split_rows_nth(1)[OF _ assms(2)] by (simp add: split_rows_length)
  qed
  also have "\<dots> = map (\<lambda>i. map (\<lambda>e. rows ! (e * b + i)) [0..<n]) [0..<b]"
    using split_rows_nth(2)[OF _ assms(2)] by (simp add: split_rows_length)
  finally show ?thesis .
qed

lemma rearrange_is_spec_reshape:
  assumes "ndim t = 2" and "0 < n" and "length (un_Tn t) = n * batch"
  shows "rearrange_nb_c n t = Inr (spec_reshape n batch t)"
proof -
  have d: "length (un_Tn t) div n = batch" and m: "length (un_Tn t) mod n = 0"
    using assms(2,3) by simp_all
  show ?thesis
    using assms(1,2) d m transpose_split_rows[OF assms(2,3)]
    by (simp add: rearrange_nb_c_def spec_reshape_def comp_def)
qed

lemma spec_reshape_index:
  assumes "b < batch" "e < n"
  shows "un_Tn (un_Tn (spec_reshape n batch t) ! b) ! e = un_Tn t ! (e * batch + b)"
    and "at3 (spec_reshape n batch t) b e c = at2 t (e * batch + b) c"
    and "length (un_Tn (spec_reshape n batch t)) = batch"
    and "length (un_Tn (un_Tn (spec_reshape n batch t) ! b)) = n"
  using assms by (simp_all add: spec_reshape_def at3_def at2_def)

text \<open>
  C4. Let the model of the ensemble routine return stacked logits with two
  dimensions and \<open>num_estimators * batch\<close> rows, \<open>num_estimators \<ge> 1\<close>. Then the
  validation step and the test step both continue with the reshaped tensor of shape
  \<open>[batch, num_estimators, classes]\<close> whose row \<open>[b, e]\<close> is row \<open>e * batch + b\<close> of the
  stacked tensor, so that element \<open>[b, e, c]\<close> is element \<open>[e * batch + b, c]\<close> (the
  estimator index varies slowest): the validation step averages its per-estimator
  probabilities over the estimators and adds them to the validation pool, the test
  step computes its probabilities, OOD score and routing from it.
\<close>

theorem ensemble_steps_reshape:
  assumes "forward (model r) inputs = Inr logits0"
    and "ndim logits0 = 2" and "0 < num_estimators r"
    and "length (un_Tn logits0) = num_estimators r * batch"
  shows "(\<forall>b < batch. \<forall>e < num_estimators r.
            un_Tn (un_Tn (spec_reshape (num_estimators r) batch logits0) ! b) ! e =
              un_Tn logits0 ! (e * batch + b) \<and>
            (\<forall>c. at3 (spec_reshape (num_estimators r) batch logits0) b e c =
                   at2 logits0 (e * batch + b) c)) \<and>
         ensemble_validation_step r (inputs, targets) batch_idx =
           bindE (mean_dim 1
                   (if binary_cls r
                    then squeeze_last (sigmoid (spec_reshape (num_estimators r) batch logits0))
                    else softmax_last (spec_reshape (num_estimators r) batch logits0)))
             (\<lambda>probs. Inr (r\<lparr>val_cls_metrics := val_cls_metrics r @ [(probs, targets)]\<rparr>)) \<and>
         ensemble_test_step mi_metric vr_metric r (inputs, targets) batch_idx dataloader_idx =
           bindE (mean_dim 1
                   (if binary_cls r
                    then sigmoid (spec_reshape (num_estimators r) batch logits0)
                    else softmax_last (spec_reshape (num_estimators r) batch logits0)))
             (\<lambda>probs.
                bindE (ensemble_ood_values mi_metric vr_metric r
                         (spec_reshape (num_estimators r) batch logits0)
                         (if binary_cls r
                          then sigmoid (spec_reshape (num_estimators r) batch logits0)
                          else softmax_last (spec_reshape (num_estimators r) batch logits0))
                         probs)
                  (\<lambda>ood_values.
                     ensemble_route_batch r
                       (if binary_cls r
                        then sigmoid (spec_reshape (num_estimators r) batch logits0)
                        else softmax_last (spec_reshape (num_estimators r) batch logits0))
                       probs ood_values targets dataloader_idx))"
proof -
  note rs = rearrange_is_spec_reshape[OF assms(2,3,4)]
  have 1: "\<forall>b < batch. \<forall>e < num_estimators r.
            un_Tn (un_Tn (spec_reshape (num_estimators r) batch logits0) ! b) ! e =
              un_Tn logits0 ! (e * batch + b) \<and>
            (\<forall>c. at3 (spec_reshape (num_estimators r) batch logits0) b e c =
                   at2 logits0 (e * batch + b) c)"
    by (simp add: spec_reshape_index)
  have 2: "ensemble_validation_step r (inputs, targets) batch_idx =
           bindE (mean_dim 1
                   (if binary_cls r
                    then squeeze_last (sigmoid (spec_reshape (num_estimators r) batch logits0))
                    else softmax_last (spec_reshape (num_estimators r) batch logits0)))
             (\<lambda>probs. Inr (r\<lparr>val_cls_metrics := val_cls_metrics r @ [(probs, targets)]\<rparr>))"
    by (simp add: ensemble_validation_step_def assms(1) rs)
  have 3: "ensemble_test_step mi_metric vr_metric r (inputs, targets) batch_idx dataloader_idx =
           bindE (mean_dim 1
                   (if binary_cls r
                    then sigmoid (spec_reshape (num_estimators r) batch logits0)
                    else softmax_last (spec_reshape (num_estimators r) batch logits0)))
             (\<lambda>probs.
                bindE (ensemble_ood_values mi_metric vr_metric r
                         (spec_reshape (num_estimators r) batch logits0)
                         (if binary_cls r
                          then sigmoid (spec_reshape (num_estimators r) batch logits0)
                          else softmax_last (spec_reshape (num_estimators r) batch logits0))
                         probs)
                  (\<lambda>ood_values.
                     ensemble_route_batch r
                       (if binary_cls r
                        then sigmoid (spec_reshape (num_estimators r) batch logits0)
                        else softmax_last (spec_reshape (num_estimators r) batch logits0))
                       probs ood_values targets dataloader_idx))"
    by (simp add: ensemble_test_step_def assms(1) rs Let_def)
  from 1 2 3 show ?thesis by blast
qed

lemmas ens_init_eval = ensemble_init_def ex_ens_args_def single_args.extend_def
  single_args.truncate_def ensemble_args.fields_def ex_args_def single_init_def
  routine.extend_def ens_routine.fields_def ex_model_def

lemma ex_ens3_fields:
  "ensemble_init ex_ens_args = Inr ex_ens3" "num_estimators ex_ens3 = 3"
  "forward (model ex_ens3) = Inr" "binary_cls ex_ens3 = False"
  by (simp_all add: ex_ens3_def ens_init_eval)

lemma ex_ens2_fields:
  "ensemble_init (ex_ens_args\<lparr>arg_num_estimators := 2\<rparr>) = Inr ex_ens2"
  "num_estimators ex_ens2 = 2"
  "forward (model ex_ens2) = Inr" "binary_cls ex_ens2 = False" "val_cls_metrics ex_ens2 = []"
  by (simp_all add: ex_ens2_def ens_init_eval)

lemma ex_reshape2:
  "spec_reshape 2 2 ex_stacked2 =
     Tn [Tn [Tn [Sc 0, Sc 0], Tn [Sc (ln 3), Sc 0]], Tn [Tn [Sc 0, Sc 0], Tn [Sc (ln 3), Sc 0]]]"
  by (simp add: spec_reshape_def ex_stacked2_def upt_rec)

lemma ex_mean2:
  "mean_dim 1 (Tn [Tn [Tn [Sc (1 / 2), Sc (1 / 2)], Tn [Sc (3 / 4), Sc (1 / 4)]],
                   Tn [Tn [Sc (1 / 2), Sc (1 / 2)], Tn [Sc (3 / 4), Sc (1 / 4)]]]) =
     Inr (Tn [Tn [Sc (5 / 8), Sc (3 / 8)], Tn [Sc (5 / 8), Sc (3 / 8)]])"
  by (simp add: mean_dim_def norm_dim_def)

theorem ensemble_steps_reshape_witness:
  "forward (model ex_ens3) ex_stacked = Inr ex_stacked \<and> ndim ex_stacked = 2 \<and>
   num_estimators ex_ens3 = 3 \<and> length (un_Tn ex_stacked) = 3 * 4 \<and>
   at3 (spec_reshape 3 4 ex_stacked) 1 2 3 = Sc 93 \<and> at2 ex_stacked (2 * 4 + 1) 3 = Sc 93 \<and>
   forward (model ex_ens2) ex_stacked2 = Inr ex_stacked2 \<and>
   ensemble_validation_step ex_ens2 (ex_stacked2, ex_targets2) 0 =
     Inr (ex_ens2\<lparr>val_cls_metrics :=
            [(Tn [Tn [Sc (5 / 8), Sc (3 / 8)], Tn [Sc (5 / 8), Sc (3 / 8)]], ex_targets2)]\<rparr>)"
proof -
  have a: "forward (model ex_ens3) ex_stacked = Inr ex_stacked"
    by (simp add: ex_ens3_fields)
  have b: "ndim ex_stacked = 2" "length (un_Tn ex_stacked) = num_estimators ex_ens3 * 4"
    by (simp_all add: ex_stacked_unfold ex_ens3_fields)
  have c: "at2 ex_stacked (2 * 4 + 1) 3 = Sc 93"
    by (simp add: ex_stacked_unfold at2_def)
  have n: "0 < num_estimators ex_ens3" by (simp add: ex_ens3_fields)
  from ensemble_steps_reshape[OF a b(1) n b(2), THEN conjunct1, rule_format, of 1 2] c
  have i: "at3 (spec_reshape 3 4 ex_stacked) 1 2 3 = Sc 93"
    by (simp add: ex_ens3_fields)
  have a2: "forward (model ex_ens2) ex_stacked2 = Inr ex_stacked2"
    by (simp add: ex_ens2_fields)
  have b2: "ndim ex_stacked2 = 2" "length (un_Tn ex_stacked2) = num_estimators ex_ens2 * 2"
    by (simp_all add: ex_stacked2_def ex_ens2_fields)
  have n2: "0 < num_estimators ex_ens2" by (simp add: ex_ens2_fields)
  from ensemble_steps_reshape[OF a2 b2(1) n2 b2(2), THEN conjunct2, THEN conjunct1,
      of ex_targets2 0]
  have v: "ensemble_validation_step ex_ens2 (ex_stacked2, ex_targets2) 0 =
     Inr (ex_ens2\<lparr>val_cls_metrics :=
            [(Tn [Tn [Sc (5 / 8), Sc (3 / 8)], Tn [Sc (5 / 8), Sc (3 / 8)]], ex_targets2)]\<rparr>)"
    by (simp add: ex_ens2_fields ex_reshape2 ex_mean2)
  from a b c i a2 v show ?thesis by (simp add: ex_ens3_fields)
qed

section \<open>The annealing coefficient of DECLoss\<close>

lemma DECLoss_init_Inr:
  assumes "DECLoss_init step rw lt red = Inr L"
  shows "reg_weight L = rw \<and> annealing_step L = step \<and> reduction L = red \<and>
         loss_type L = lt \<and>
         (\<forall>w. rw = Some w \<longrightarrow> 0 \<le> w) \<and> (\<forall>S. step = Some S \<longrightarrow> 0 < S) \<and>
         valid_reduction red \<and> lt \<in> set [''mse'', ''log'', ''digamma'']"
  using assms by (auto simp: DECLoss_init_def split: if_splits)

lemma bindE_assoc: "bindE (bindE m f) g = bindE m (\<lambda>x. bindE (f x) g)"
  by (cases m) simp_all

lemma bind_some_fit:
  "bindE (map_sum id Some m) (\<lambda>ldo. bindE A (\<lambda>coef. bindE (B coef) (\<lambda>reg.
      case ldo of None \<Rightarrow> Inl UnboundLocalError | Some ld \<Rightarrow> F ld coef reg))) =
   bindE m (\<lambda>ld. bindE A (\<lambda>coef. bindE (B coef) (\<lambda>reg. F ld coef reg)))"
  by (cases m) simp_all

lemma forward_unfold:
  assumes "DECLoss_init step rw lt red = Inr L" and "\<not> (step \<noteq> None \<and> ce = None)"
  shows "DECLoss_forward lg dg L evidence targets ce =
         bindE (bindE (last_size evidence) (\<lambda>n. one_hot n targets)) (\<lambda>oh.
         bindE (if lt = ''mse'' then mse_loss evidence (map_tensor real_of_int oh)
                else if lt = ''log'' then log_loss evidence (map_tensor real_of_int oh)
                else digamma_loss dg evidence (map_tensor real_of_int oh)) (\<lambda>ld.
         bindE (annealing_coef L ce) (\<lambda>coef.
         bindE (kldiv_reg lg dg evidence (map_tensor real_of_int oh)) (\<lambda>reg.
         bindE (tadd ld (smul coef reg)) (\<lambda>total.
         Inr (reduce_loss red total))))))"
proof -
  note f = DECLoss_init_Inr[OF assms(1)]
  have g: "\<not> (annealing_step L \<noteq> None \<and> 0 < the (annealing_step L) \<and> ce = None)"
    using f assms(2) by auto
  have lt: "lt = ''mse'' \<or> lt = ''log'' \<or> lt = ''digamma''"
    using f by auto
  have fields: "loss_type L = lt" "reduction L = red"
    using f by simp_all
  from lt show ?thesis
    unfolding DECLoss_forward_def Let_def bindE_assoc
    by (elim disjE) (simp_all only: g if_False fields, simp_all add: bind_some_fit)
qed

lemma forward_missing_epoch:
  assumes "DECLoss_init step rw lt red = Inr L" and "step \<noteq> None \<and> ce = None"
  shows "\<exists>msg. DECLoss_forward lg dg L evidence targets ce = Inl (ValueError msg)"
  using DECLoss_init_Inr[OF assms(1)] assms(2) by (auto simp: DECLoss_forward_def)

lemma forward_characterised:
  assumes "DECLoss_init step rw lt red = Inr L"
  shows "DECLoss_forward lg dg L evidence targets ce = Inr out \<longleftrightarrow>
         \<not> (step \<noteq> None \<and> ce = None) \<and>
         (\<exists>oh ld coef reg total.
            bindE (last_size evidence) (\<lambda>n. one_hot n targets) = Inr oh \<and>
            (if lt = ''mse'' then mse_loss evidence (map_tensor real_of_int oh)
             else if lt = ''log'' then log_loss evidence (map_tensor real_of_int oh)
             else digamma_loss dg evidence (map_tensor real_of_int oh)) = Inr ld \<and>
            annealing_coef L ce = Inr coef \<and>
            kldiv_reg lg dg evidence (map_tensor real_of_int oh) = Inr reg \<and>
            tadd ld (smul coef reg) = Inr total \<and>
            out = reduce_loss red total)"
proof (cases "step \<noteq> None \<and> ce = None")
  case True
  with forward_missing_epoch[OF assms this, of lg dg evidence targets] show ?thesis by auto
next
  case False
  show ?thesis
    unfolding forward_unfold[OF assms False] bindE_eq_Inr
    using False by (simp only: simp_thms) blast
qed

lemma ex_dec_init:
  "(\<forall>w. rw = Some w \<longrightarrow> 0 \<le> w) \<Longrightarrow> (\<forall>S. step = Some S \<longrightarrow> 0 < S) \<Longrightarrow>
     DECLoss_init step rw ''log'' ''mean'' = Inr (ex_dec step rw)"
  by (auto simp: DECLoss_init_def ex_dec_def valid_reduction_def)

lemma ex_dec_fields [simp]:
  "reg_weight (ex_dec step rw) = rw" "annealing_step (ex_dec step rw) = step"
  "reduction (ex_dec step rw) = ''mean''" "loss_type (ex_dec step rw) = ''log''"
  by (simp_all add: ex_dec_def)

text \<open>
  C3. For a \<open>DECLoss\<close> that its constructor accepted, the coefficient selected by
  \<open>forward\<close> is: 0 when neither \<open>reg_weight\<close> nor \<open>annealing_step\<close> was given;
  \<open>min(1, current_epoch / annealing_step)\<close> when only \<open>annealing_step\<close> was given and
  the epoch supplied is positive; \<open>reg_weight\<close> when only a positive \<open>reg_weight\<close> was
  given; and \<open>min(1, current_epoch / annealing_step)\<close>, whatever \<open>reg_weight\<close> is, when
  both were given and an epoch is supplied. And \<open>forward\<close> applies it to the KL
  regulariser: it returns exactly when an epoch is supplied wherever an annealing
  step is set and every part is computed, and then its result is the reduction of
  the fit term of the configured loss type plus this coefficient times the KL
  regulariser.
\<close>

theorem annealing_coefficient_cases:
  assumes "DECLoss_init step rw lt red = Inr L"
  shows "(step = None \<and> rw = None \<longrightarrow> annealing_coef L current_epoch = Inr 0) \<and>
         (\<forall>S e. rw = None \<and> step = Some S \<and> current_epoch = Some e \<and> 0 < e \<longrightarrow>
            annealing_coef L current_epoch = Inr (min 1 (real_of_int e / real_of_int S))) \<and>
         (\<forall>w. step = None \<and> rw = Some w \<and> 0 < w \<longrightarrow>
            annealing_coef L current_epoch = Inr w) \<and>
         (\<forall>S w e. step = Some S \<and> rw = Some w \<and> current_epoch = Some e \<longrightarrow>
            annealing_coef L current_epoch = Inr (min 1 (real_of_int e / real_of_int S))) \<and>
         (\<forall>out. DECLoss_forward lg dg L evidence targets current_epoch = Inr out \<longleftrightarrow>
            \<not> (step \<noteq> None \<and> current_epoch = None) \<and>
            (\<exists>oh ld coef reg total.
               bindE (last_size evidence) (\<lambda>n. one_hot n targets) = Inr oh \<and>
               (if lt = ''mse'' then mse_loss evidence (map_tensor real_of_int oh)
                else if lt = ''log'' then log_loss evidence (map_tensor real_of_int oh)
                else digamma_loss dg evidence (map_tensor real_of_int oh)) = Inr ld \<and>
               annealing_coef L current_epoch = Inr coef \<and>
               kldiv_reg lg dg evidence (map_tensor real_of_int oh) = Inr reg \<and>
               tadd ld (smul coef reg) = Inr total \<and>
               out = reduce_loss red total))"
proof -
  have "(step = None \<and> rw = None \<longrightarrow> annealing_coef L current_epoch = Inr 0) \<and>
         (\<forall>S e. rw = None \<and> step = Some S \<and> current_epoch = Some e \<and> 0 < e \<longrightarrow>
            annealing_coef L current_epoch = Inr (min 1 (real_of_int e / real_of_int S))) \<and>
         (\<forall>w. step = None \<and> rw = Some w \<and> 0 < w \<longrightarrow>
            annealing_coef L current_epoch = Inr w) \<and>
         (\<forall>S w e. step = Some S \<and> rw = Some w \<and> current_epoch = Some e \<longrightarrow>
            annealing_coef L current_epoch = Inr (min 1 (real_of_int e / real_of_int S)))"
    using DECLoss_init_Inr[OF assms]
    by (auto simp: annealing_coef_def annealed_def py_gt0_def py_truediv_def)
  then show ?thesis
    using forward_characterised[OF assms, of lg dg evidence targets current_epoch]
    by (simp only: simp_thms)
qed

lemma ex_dec_parts:
  "bindE (last_size ex_evidence) (\<lambda>n. one_hot n ex_labels) = Inr (Tn [Tn [Sc 1, Sc 0]])"
  "log_loss ex_evidence (map_tensor real_of_int (Tn [Tn [Sc 1, Sc 0]])) =
     Inr (Tn [Tn [Sc (ln 5 - ln 2)]])"
  "kldiv_reg (\<lambda>x. x) (\<lambda>x. x) ex_evidence (map_tensor real_of_int (Tn [Tn [Sc 1, Sc 0]])) =
     Inr (Tn [Tn [Sc (- 2)]])"
  "tadd (Tn [Tn [Sc (ln 5 - ln 2)]]) (smul c (Tn [Tn [Sc (- 2)]])) =
     Inr (Tn [Tn [Sc (ln 5 - ln 2 + c * (- 2))]])"
  "reduce_loss ''mean'' (Tn [Tn [Sc v]]) = Sc v"
  by (simp_all add: ex_evidence_def ex_labels_def log_loss_def kldiv_reg_def sadd_def relu_def
      sum_dim_def norm_dim_def tsub_def tmul_def tadd_def tlog_def smul_def reduce_loss_def
      mean_all_def Let_def)

theorem annealing_coefficient_cases_witness:
  "DECLoss_init None None ''log'' ''mean'' = Inr (ex_dec None None) \<and>
   annealing_coef (ex_dec None None) (Some 3) = Inr 0 \<and>
   DECLoss_init (Some 10) None ''log'' ''mean'' = Inr (ex_dec (Some 10) None) \<and>
   annealing_coef (ex_dec (Some 10) None) (Some 3) = Inr (3 / 10) \<and>
   DECLoss_init None (Some (1 / 2)) ''log'' ''mean'' = Inr (ex_dec None (Some (1 / 2))) \<and>
   annealing_coef (ex_dec None (Some (1 / 2))) (Some 3) = Inr (1 / 2) \<and>
   DECLoss_init (Some 2) (Some (1 / 2)) ''log'' ''mean'' = Inr (ex_dec (Some 2) (Some (1 / 2))) \<and>
   annealing_coef (ex_dec (Some 2) (Some (1 / 2))) (Some 3) = Inr 1 \<and>
   DECLoss_forward (\<lambda>x. x) (\<lambda>x. x) (ex_dec (Some 10) None) ex_evidence ex_labels (Some 3) =
     Inr (Sc (ln 5 - ln 2 + 3 / 10 * (- 2))) \<and>
   DECLoss_forward (\<lambda>x. x) (\<lambda>x. x) (ex_dec (Some 2) (Some (1 / 2))) ex_evidence ex_labels
     (Some 3) = Inr (Sc (ln 5 - ln 2 + 1 * (- 2)))"
proof -
  have i1: "DECLoss_init None None ''log'' ''mean'' = Inr (ex_dec None None)"
    by (simp add: ex_dec_init)
  have i2: "DECLoss_init (Some 10) None ''log'' ''mean'' = Inr (ex_dec (Some 10) None)"
    by (simp add: ex_dec_init)
  have i3: "DECLoss_init None (Some (1 / 2)) ''log'' ''mean'' = Inr (ex_dec None (Some (1 / 2)))"
    by (simp add: ex_dec_init)
  have i4: "DECLoss_init (Some 2) (Some (1 / 2)) ''log'' ''mean'' =
              Inr (ex_dec (Some 2) (Some (1 / 2)))"
    by (simp add: ex_dec_init)
  have c1: "annealing_coef (ex_dec None None) (Some 3) = Inr 0"
    using annealing_coefficient_cases[OF i1, of "Some 3", THEN conjunct1] by simp
  have c2: "annealing_coef (ex_dec (Some 10) None) (Some 3) = Inr (3 / 10)"
    using annealing_coefficient_cases[OF i2, of "Some 3", THEN conjunct2, THEN conjunct1,
        rule_format, of 10 3]
    by simp
  have c3: "annealing_coef (ex_dec None (Some (1 / 2))) (Some 3) = Inr (1 / 2)"
    using annealing_coefficient_cases[OF i3, of "Some 3", THEN conjunct2, THEN conjunct2,
        THEN conjunct1, rule_format, of "1 / 2"]
    by simp
  have c4: "annealing_coef (ex_dec (Some 2) (Some (1 / 2))) (Some 3) = Inr 1"
    using annealing_coefficient_cases[OF i4, of "Some 3", THEN conjunct2, THEN conjunct2,
        THEN conjunct2, THEN conjunct1, rule_format, of 2 "1 / 2" 3]
    by simp
  have f2: "DECLoss_forward (\<lambda>x. x) (\<lambda>x. x) (ex_dec (Some 10) None) ex_evidence ex_labels
              (Some 3) = Inr (Sc (ln 5 - ln 2 + 3 / 10 * (- 2)))"
  proof (rule annealing_coefficient_cases[OF i2, of "Some 3" "\<lambda>x. x" "\<lambda>x. x" ex_evidence
        ex_labels, THEN conjunct2, THEN conjunct2, THEN conjunct2, THEN conjunct2, rule_format,
        THEN iffD2])
    show "\<not> (Some (10::int) \<noteq> None \<and> Some (3::int) = None) \<and>
      (\<exists>oh ld coef reg total.
         bindE (last_size ex_evidence) (\<lambda>n. one_hot n ex_labels) = Inr oh \<and>
         (if ''log'' = ''mse'' then mse_loss ex_evidence (map_tensor real_of_int oh)
          else if ''log'' = ''log'' then log_loss ex_evidence (map_tensor real_of_int oh)
          else digamma_loss (\<lambda>x. x) ex_evidence (map_tensor real_of_int oh)) = Inr ld \<and>
         annealing_coef (ex_dec (Some 10) None) (Some 3) = Inr coef \<and>
         kldiv_reg (\<lambda>x. x) (\<lambda>x. x) ex_evidence (map_tensor real_of_int oh) = Inr reg \<and>
         tadd ld (smul coef reg) = Inr total \<and>
         Sc (ln 5 - ln 2 + 3 / 10 * (- 2)) = reduce_loss ''mean'' total)"
      using ex_dec_parts(1,2,3) ex_dec_parts(4)[of "3 / 10"] ex_dec_parts(5) c2
      by (intro conjI exI[of _ "Tn [Tn [Sc 1, Sc 0]]"] exI[of _ "Tn [Tn [Sc (ln 5 - ln 2)]]"]
          exI[of _ "3 / 10"] exI[of _ "Tn [Tn [Sc (- 2)]]"]
          exI[of _ "Tn [Tn [Sc (ln 5 - ln 2 + 3 / 10 * (- 2))]]"]) simp_all
  qed
  have f4: "DECLoss_forward (\<lambda>x. x) (\<lambda>x. x) (ex_dec (Some 2) (Some (1 / 2))) ex_evidence
              ex_labels (Some 3) = Inr (Sc (ln 5 - ln 2 + 1 * (- 2)))"
  proof (rule annealing_coefficient_cases[OF i4, of "Some 3" "\<lambda>x. x" "\<lambda>x. x" ex_evidence
        ex_labels, THEN conjunct2, THEN conjunct2, THEN conjunct2, THEN conjunct2, rule_format,
        THEN iffD2])
    show "\<not> (Some (2::int) \<noteq> None \<and> Some (3::int) = None) \<and>
      (\<exists>oh ld coef reg total.
         bindE (last_size ex_evidence) (\<lambda>n. one_hot n ex_labels) = Inr oh \<and>
         (if ''log'' = ''mse'' then mse_loss ex_evidence (map_tensor real_of_int oh)
          else if ''log'' = ''log'' then log_loss ex_evidence (map_tensor real_of_int oh)
          else digamma_loss (\<lambda>x. x) ex_evidence (map_tensor real_of_int oh)) = Inr ld \<and>
         annealing_coef (ex_dec (Some 2) (Some (1 / 2))) (Some 3) = Inr coef \<and>
         kldiv_reg (\<lambda>x. x) (\<lambda>x. x) ex_evidence (map_tensor real_of_int oh) = Inr reg \<and>
         tadd ld (smul coef reg) = Inr total \<and>
         Sc (ln 5 - ln 2 + 1 * (- 2)) = reduce_loss ''mean'' total)"
      using ex_dec_parts(1,2,3) ex_dec_parts(4)[of 1] ex_dec_parts(5) c4
      by (intro conjI exI[of _ "Tn [Tn [Sc 1, Sc 0]]"] exI[of _ "Tn [Tn [Sc (ln 5 - ln 2)]]"]
          exI[of _ 1] exI[of _ "Tn [Tn [Sc (- 2)]]"]
          exI[of _ "Tn [Tn [Sc (ln 5 - ln 2 + 1 * (- 2))]]"]) simp_all
  qed
  from i1 i2 i3 i4 c1 c2 c3 c4 f2 f4 show ?thesis
    by simp
qed

section \<open>DECLoss with a zero regularization weight\<close>

lemma zero_weight_coef:
  assumes "reg_weight L = Some 0" "annealing_step L = None"
  shows "annealing_coef L ce = Inl TypeError"
  using assms
  by (auto simp: annealing_coef_def annealed_def py_gt0_def py_truediv_def
      split: option.splits)

lemma zero_weight_forward:
  assumes "reg_weight L = Some 0" "annealing_step L = None"
  shows "\<exists>e. DECLoss_forward lg dg L evidence targets ce = Inl e"
proof -
  have "isl (DECLoss_forward lg dg L evidence targets ce)"
    unfolding DECLoss_forward_def using assms zero_weight_coef[OF assms]
    by (auto simp: bindE_def Let_def split: sum.splits)
  then show ?thesis
    by (cases "DECLoss_forward lg dg L evidence targets ce") auto
qed

text \<open>
  C10. With \<open>reg_weight = 0\<close> and no \<open>annealing_step\<close> (and any valid loss type and
  reduction) the constructor returns a loss object; for that object the selection of
  the coefficient raises a TypeError whether or not an epoch is supplied, because it
  reaches the division by the absent annealing step; so every \<open>forward\<close> call raises
  and none returns a loss.
\<close>

theorem zero_weight_always_raises:
  assumes "lt \<in> set [''mse'', ''log'', ''digamma'']" and "valid_reduction red"
  shows "\<exists>L. DECLoss_init None (Some 0) lt red = Inr L \<and>
           (\<forall>ce. annealing_coef L ce = Inl TypeError) \<and>
           (\<forall>lg dg evidence targets ce.
              \<exists>e. DECLoss_forward lg dg L evidence targets ce = Inl e)"
proof -
  let ?L = "\<lparr>reg_weight = Some 0, annealing_step = None, reduction = red, loss_type = lt\<rparr>"
  have i: "DECLoss_init None (Some 0) lt red = Inr ?L"
    using assms by (simp add: DECLoss_init_def)
  have "\<forall>ce. annealing_coef ?L ce = Inl TypeError"
    by (simp add: zero_weight_coef)
  moreover have "\<forall>lg dg evidence targets ce.
                   \<exists>e. DECLoss_forward lg dg ?L evidence targets ce = Inl e"
    by (intro allI zero_weight_forward) simp_all
  ultimately show ?thesis
    using i by blast
qed

theorem zero_weight_always_raises_witness:
  "DECLoss_init None (Some 0) ''log'' ''mean'' = Inr (ex_dec None (Some 0)) \<and>
   DECLoss_forward (\<lambda>x. 0) (\<lambda>x. 0) (ex_dec None (Some 0)) ex_evidence ex_labels None
     = Inl TypeError \<and>
   DECLoss_forward (\<lambda>x. 0) (\<lambda>x. 0) (ex_dec None (Some 0)) ex_evidence ex_labels (Some 3)
     = Inl TypeError"
proof -
  have v: "''log'' \<in> set [''mse'', ''log'', ''digamma'']" "valid_reduction ''mean''"
    by (simp_all add: valid_reduction_def)
  from zero_weight_always_raises[OF v] obtain L where
    L: "DECLoss_init None (Some 0) ''log'' ''mean'' = Inr L"
       "\<forall>ce. annealing_coef L ce = Inl TypeError"
    by blast
  have i: "DECLoss_init None (Some 0) ''log'' ''mean'' = Inr (ex_dec None (Some 0))"
    by (simp add: ex_dec_init)
  with L have c: "\<And>ce. annealing_coef (ex_dec None (Some 0)) ce = Inl TypeError"
    by simp
  have f: "\<And>ce. DECLoss_forward (\<lambda>x. 0) (\<lambda>x. 0) (ex_dec None (Some 0)) ex_evidence ex_labels ce
     = Inl TypeError"
    by (simp add: DECLoss_forward_def c ex_evidence_def ex_labels_def log_loss_def
        sadd_def relu_def sum_dim_def norm_dim_def tsub_def tmul_def tlog_def)
  from i f show ?thesis by simp
qed

section \<open>ELBOLoss averages its draws\<close>

lemma round32_below_one:
  fixes n :: nat
  assumes "1 / 2 ^ n \<le> \<bar>x\<bar>" and "\<bar>x\<bar> < 2 / 2 ^ n"
  shows "round32 x = of_int (round_half_even (x * 2 ^ (n + 23))) / 2 ^ (n + 23)"
proof -
  have pos: "0 < \<bar>x\<bar>"
    using assms(1) by (smt (verit) divide_pos_pos zero_less_power)
  then have nz: "x \<noteq> 0"
    by auto
  have p1: "2 powr (of_int (- int n)) = 1 / (2::real) ^ n"
    by (simp add: powr_minus powr_realpow inverse_eq_divide)
  have p2: "2 powr (of_int (- int n) + 1) = 2 / (2::real) ^ n"
  proof -
    have "2 powr (of_int (- int n) + 1) = 2 powr (of_int (- int n)) * (2::real) powr 1"
      by (rule powr_add)
    then show ?thesis
      using p1 by simp
  qed
  have e: "\<lfloor>log 2 \<bar>x\<bar>\<rfloor> = - int n"
    using floor_log_eq_powr_iff[of "\<bar>x\<bar>" 2 "- int n"] pos assms p1 p2 by simp
  have u: "2 powr (- real n - 23) = 1 / (2::real) ^ (n + 23)"
  proof -
    have "- real n - 23 = - real (n + 23)"
      by simp
    then show ?thesis
      by (simp only: powr_minus powr_realpow inverse_eq_divide)
  qed
  show ?thesis
    using nz by (simp add: round32_def e u Let_def del: power_add)
qed

lemma round32_from_one:
  fixes n :: nat
  assumes "2 ^ n \<le> \<bar>x\<bar>" and "\<bar>x\<bar> < 2 * 2 ^ n" and "n \<le> 23"
  shows "round32 x = of_int (round_half_even (x * 2 ^ (23 - n))) / 2 ^ (23 - n)"
proof -
  have pos: "0 < \<bar>x\<bar>"
    using assms(1) by (smt (verit) zero_less_power)
  then have nz: "x \<noteq> 0"
    by auto
  have p1: "2 powr (of_int (int n)) = (2::real) ^ n"
    by (simp add: powr_realpow)
  have p2: "2 powr (of_int (int n) + 1) = 2 * (2::real) ^ n"
  proof -
    have "2 powr (of_int (int n) + 1) = 2 powr (of_int (int n)) * (2::real) powr 1"
      by (rule powr_add)
    then show ?thesis
      using p1 by simp
  qed
  have e: "\<lfloor>log 2 \<bar>x\<bar>\<rfloor> = int n"
    using floor_log_eq_powr_iff[of "\<bar>x\<bar>" 2 "int n"] pos assms(1,2) p1 p2 by simp
  have u: "2 powr (real n - 23) = 1 / (2::real) ^ (23 - n)"
  proof -
    have "real n - 23 = - real (23 - n)"
      using assms(3) by simp
    then show ?thesis
      by (simp only: powr_minus powr_realpow inverse_eq_divide)
  qed
  show ?thesis
    using nz by (simp add: round32_def e u Let_def)
qed

lemma round32_zero: "round32 0 = 0"
  by (simp add: round32_def)

lemma round32_values:
  "round32 (13421773 / 134217728) = 13421773 / 134217728"
  "round32 (13421773 / 67108864) = 13421773 / 67108864"
  "round32 (40265319 / 134217728) = 5033165 / 16777216"
  "round32 (5033165 / 16777216) = 5033165 / 16777216"
  "round32 (53687093 / 134217728) = 13421773 / 33554432"
  "round32 (13421773 / 33554432) = 13421773 / 33554432"
  "round32 (67108865 / 134217728) = 1 / 2"
  "round32 (1 / 2) = 1 / 2"
  "round32 (80530637 / 134217728) = 5033165 / 8388608"
  "round32 (5033165 / 8388608) = 5033165 / 8388608"
  "round32 (93952413 / 134217728) = 2936013 / 4194304"
  "round32 (2936013 / 4194304) = 2936013 / 4194304"
  "round32 (2936013 / 29360128) = 6710887 / 67108864"
  "round32 1 = 1"
  "round32 7 = 7"
  using round32_below_one[of 4 "13421773 / 134217728"]
    round32_below_one[of 3 "13421773 / 67108864"]
    round32_below_one[of 2 "40265319 / 134217728"]
    round32_below_one[of 2 "5033165 / 16777216"]
    round32_below_one[of 2 "53687093 / 134217728"]
    round32_below_one[of 2 "13421773 / 33554432"]
    round32_below_one[of 1 "67108865 / 134217728"]
    round32_below_one[of 1 "1 / 2"]
    round32_below_one[of 1 "80530637 / 134217728"]
    round32_below_one[of 1 "5033165 / 8388608"]
    round32_below_one[of 1 "93952413 / 134217728"]
    round32_below_one[of 1 "2936013 / 4194304"]
    round32_below_one[of 4 "2936013 / 29360128"]
    round32_from_one[of 0 1]
    round32_from_one[of 2 7]
  by (simp_all add: round_half_even_def)

text \<open>
  C6, as the claim states it, fails on the code, which computes in float32. With a
  deterministic model and a criterion that always returns the float32 nearest to 0.1
  (and KL weight 0), the loss for one sample is 13421773/2^27 and the loss for seven
  samples is 6710887/2^26: the seven roundings of the accumulation and the rounding of
  the division leave a result one unit in the last place above the single-sample loss.
\<close>

theorem elbo_float32_depends_on_num_samples:
  "ELBOLoss_init ex_bnn ex_no_modules (CriterionInstance ex_criterion32) 0 1 = Inr (ex_elbo32 1) \<and>
   ELBOLoss_init ex_bnn ex_no_modules (CriterionInstance ex_criterion32) 0 7 = Inr (ex_elbo32 7) \<and>
   ELBOLoss_forward round32 (ex_elbo32 1) 0 ex_inputs ex_targets =
     Inr (13421773 / 134217728, 1) \<and>
   ELBOLoss_forward round32 (ex_elbo32 7) 0 ex_inputs ex_targets =
     Inr (6710887 / 67108864, 7) \<and>
   (13421773 / 134217728 :: real) \<noteq> 6710887 / 67108864"
  by (simp add: ELBOLoss_init_def ex_elbo32_def ELBOLoss_forward_def eval_nat_numeral
      ex_bnn_def ex_criterion32_def ex_no_modules_def kl_div_def round32_zero round32_values)

lemma elbo_loop_draws:
  "elbo_loop fl L k s x t acc =
     bindE (elbo_draws fl L k s x t) (\<lambda>(ds, s'). Inr (accumulate fl acc ds, s'))"
proof (induction k arbitrary: s acc)
  case 0
  show ?case by (simp add: accumulate_def)
next
  case (Suc k)
  show ?case
    by (auto simp: Suc bindE_def accumulate_def split: sum.splits)
qed

lemma elbo_draws_length:
  "elbo_draws fl L k s x t = Inr (ds, s') \<Longrightarrow> length ds = k"
  by (induction k arbitrary: s ds s') (auto simp: bindE_eq_Inr)

lemma forward_is_mean:
  assumes "1 \<le> num_samples L"
  shows "ELBOLoss_forward fl L s x t = mean_of_draws fl L s x t"
proof (cases "elbo_draws fl L (nat (num_samples L)) s x t")
  case (Inl e)
  then show ?thesis
    by (simp add: ELBOLoss_forward_def mean_of_draws_def elbo_loop_draws)
next
  case (Inr p)
  obtain ds s' where p: "p = (ds, s')" by (cases p)
  from Inr p have "length ds = nat (num_samples L)"
    by (auto dest: elbo_draws_length)
  then have "real (length ds) = real_of_int (num_samples L)"
    using assms by simp
  then show ?thesis
    using Inr p by (simp add: ELBOLoss_forward_def mean_of_draws_def elbo_loop_draws)
qed

lemma accumulate_exact:
  assumes "\<forall>z. fl z = z"
  shows "accumulate fl a ds = a + sum_list (map (\<lambda>(c, w). c + w) ds)"
  unfolding accumulate_def
  by (induction ds arbitrary: a) (auto simp: assms)

lemma elbo_loop_deterministic:
  assumes "\<forall>s. \<exists>s'. elbo_model L s x = Inr (y, s') \<and> kl_div fl (elbo_modules L s') = c"
    and "elbo_criterion L y t = Inr l"
  shows "\<exists>s'. elbo_loop fl L k s x t acc =
           Inr (((\<lambda>a. fl (fl (a + l) + fl (fl (kl_weight L) * c))) ^^ k) acc, s')"
proof -
  define f where "f = (\<lambda>a. fl (fl (a + l) + fl (fl (kl_weight L) * c)))"
  have "\<exists>s'. elbo_loop fl L k s x t acc = Inr ((f ^^ k) acc, s')"
  proof (induction k arbitrary: s acc)
    case 0
    show ?case by simp
  next
    case (Suc k)
    from assms(1) obtain s1 where
      s1: "elbo_model L s x = Inr (y, s1)" "kl_div fl (elbo_modules L s1) = c"
      by blast
    from Suc[of s1 "f acc"] obtain s' where
      s': "elbo_loop fl L k s1 x t (f acc) = Inr ((f ^^ k) (f acc), s')"
      by blast
    have "(f ^^ Suc k) acc = (f ^^ k) (f acc)"
      by (simp add: funpow_swap1)
    moreover have "elbo_loop fl L (Suc k) s x t acc = elbo_loop fl L k s1 x t (f acc)"
      using s1 assms(2) by (simp add: f_def)
    ultimately show ?case
      using s' by auto
  qed
  then show ?thesis
    by (simp add: f_def)
qed

lemma funpow_exact:
  assumes "\<forall>z. fl z = z"
  shows "((\<lambda>a. fl (fl (a + l) + fl (fl w * c))) ^^ k) a = a + real k * (l + w * c)"
  by (induction k arbitrary: a) (auto simp: assms algebra_simps funpow_swap1)

lemma ELBOLoss_init_Inr:
  "ELBOLoss_init mdl mods crit klw n = Inr L \<Longrightarrow>
     1 \<le> num_samples L \<and> num_samples L = n \<and> 0 \<le> kl_weight L \<and> kl_weight L = klw \<and>
     elbo_model L = mdl \<and> elbo_modules L = mods \<and> crit = CriterionInstance (elbo_criterion L)"
  by (auto simp: ELBOLoss_init_def split: criterion_arg.splits if_splits)

text \<open>
  C6, amended. For an \<open>ELBOLoss\<close> that its constructor accepted (so
  \<open>num_samples \<ge> 1\<close>), under any rounding \<open>fl\<close> of the arithmetic, \<open>forward\<close> returns
  the mean over the \<open>num_samples\<close> draws as the code computes it: the two terms
  \<open>criterion(model(inputs), targets)\<close> and \<open>kl_weight * kl_divergence()\<close> of each draw
  are added in turn to an accumulator that starts at 0, and the accumulator is divided
  by \<open>num_samples\<close>, every operation rounded; without rounding this is the sum of the
  draws divided by their number. When the model is deterministic on the inputs and
  the criterion returns \<open>l\<close>, the result is the rounded accumulation of \<open>num_samples\<close>
  equal draws divided by \<open>num_samples\<close>; without rounding it is \<open>l + kl_weight * kl\<close>
  for every number of samples, the single-sample loss.
\<close>

theorem elbo_rounded_mean_over_draws:
  assumes "ELBOLoss_init mdl mods (CriterionInstance crit) klw k = Inr L"
  shows "ELBOLoss_forward fl L s x t = mean_of_draws fl L s x t \<and>
         ((\<forall>z. fl z = z) \<longrightarrow>
            (\<forall>ds s'. elbo_draws fl L (nat k) s x t = Inr (ds, s') \<longrightarrow>
               ELBOLoss_forward fl L s x t =
                 Inr (sum_list (map (\<lambda>(c, w). c + w) ds) / real (length ds), s'))) \<and>
         ((\<forall>s. \<exists>s'. mdl s x = Inr (y, s') \<and> kl_div fl (mods s') = c) \<and> crit y t = Inr l \<longrightarrow>
            (\<exists>s'. ELBOLoss_forward fl L s x t =
               Inr (fl (((\<lambda>a. fl (fl (a + l) + fl (fl klw * c))) ^^ nat k) 0 /
                        fl (real_of_int k)), s')) \<and>
            ((\<forall>z. fl z = z) \<longrightarrow>
               (\<exists>s'. ELBOLoss_forward fl L s x t = Inr (l + klw * c, s'))))"
proof -
  note f = ELBOLoss_init_Inr[OF assms]
  have A: "ELBOLoss_forward fl L s x t = mean_of_draws fl L s x t"
    using f by (simp add: forward_is_mean)
  have B: "ELBOLoss_forward fl L s x t =
             Inr (sum_list (map (\<lambda>(c, w). c + w) ds) / real (length ds), s')"
    if "\<forall>z. fl z = z" "elbo_draws fl L (nat k) s x t = Inr (ds, s')" for ds s'
    using that f by (simp add: A mean_of_draws_def accumulate_exact)
  have C: "\<exists>s'. ELBOLoss_forward fl L s x t =
               Inr (fl (((\<lambda>a. fl (fl (a + l) + fl (fl klw * c))) ^^ nat k) 0 /
                        fl (real_of_int k)), s')"
    if h: "\<forall>s. \<exists>s'. mdl s x = Inr (y, s') \<and> kl_div fl (mods s') = c" "crit y t = Inr l"
  proof -
    have 1: "\<forall>s. \<exists>s'. elbo_model L s x = Inr (y, s') \<and> kl_div fl (elbo_modules L s') = c"
      using h(1) f by simp
    have 2: "elbo_criterion L y t = Inr l"
      using h(2) f by simp
    from elbo_loop_deterministic[OF 1 2, of "nat (num_samples L)" s 0] obtain s' where
      "elbo_loop fl L (nat (num_samples L)) s x t 0 =
         Inr (((\<lambda>a. fl (fl (a + l) + fl (fl (kl_weight L) * c))) ^^ nat (num_samples L)) 0, s')"
      by blast
    then show ?thesis
      using f by (simp add: ELBOLoss_forward_def)
  qed
  have D: "\<exists>s'. ELBOLoss_forward fl L s x t = Inr (l + klw * c, s')"
    if h: "\<forall>s. \<exists>s'. mdl s x = Inr (y, s') \<and> kl_div fl (mods s') = c" "crit y t = Inr l"
      and e: "\<forall>z. fl z = z"
  proof -
    have "real (nat k) = real_of_int k" "real_of_int k \<noteq> 0"
      using f by auto
    moreover have "((\<lambda>a. fl (fl (a + l) + fl (fl klw * c))) ^^ nat k) 0 =
            0 + real (nat k) * (l + klw * c)"
      by (rule funpow_exact[OF e])
    ultimately have "fl (((\<lambda>a. fl (fl (a + l) + fl (fl klw * c))) ^^ nat k) 0 / fl (real_of_int k)) =
            l + klw * c"
      using e by simp
    with C[OF h] show ?thesis by simp
  qed
  from A B C D show ?thesis by blast
qed

theorem elbo_rounded_mean_over_draws_witness:
  "ELBOLoss_init ex_bnn ex_modules (CriterionInstance ex_criterion) 2 3 = Inr (ex_elbo 3) \<and>
   mean_of_draws (\<lambda>z. z) (ex_elbo 3) 0 ex_inputs ex_targets = Inr (6, 3) \<and>
   ELBOLoss_forward (\<lambda>z. z) (ex_elbo 3) 0 ex_inputs ex_targets = Inr (6, 3) \<and>
   elbo_draws (\<lambda>z. z) (ex_elbo 3) (nat 3) 0 ex_inputs ex_targets =
     Inr ([(1, 5), (1, 5), (1, 5)], 3) \<and>
   ELBOLoss_forward (\<lambda>z. z) (ex_elbo 3) 0 ex_inputs ex_targets =
     Inr (sum_list (map (\<lambda>(c, w). c + w) [(1, 5), (1, 5), (1, 5)]) / 3, 3) \<and>
   (\<exists>s'. ELBOLoss_forward (\<lambda>z. z) (ex_elbo 3) 0 ex_inputs ex_targets =
      Inr (1 + 2 * (5 / 2), s')) \<and>
   ELBOLoss_init ex_bnn ex_no_modules (CriterionInstance ex_criterion32) 0 7 =
     Inr (ex_elbo32 7) \<and>
   (\<exists>s'. ELBOLoss_forward round32 (ex_elbo32 7) 0 ex_inputs ex_targets =
      Inr (round32 (((\<lambda>a. round32 (round32 (a + 13421773 / 134217728) + round32 (round32 0 * 0))) ^^
                      nat 7) 0 / round32 (real_of_int 7)), s'))"
proof -
  have i3: "ELBOLoss_init ex_bnn ex_modules (CriterionInstance ex_criterion) 2 3 =
              Inr (ex_elbo 3)"
    by (simp add: ELBOLoss_init_def ex_elbo_def)
  have i7: "ELBOLoss_init ex_bnn ex_no_modules (CriterionInstance ex_criterion32) 0 7 =
              Inr (ex_elbo32 7)"
    by (simp add: ELBOLoss_init_def ex_elbo32_def)
  have d: "\<forall>s. \<exists>s'. ex_bnn s ex_inputs = Inr (ex_inputs, s') \<and>
                  kl_div (\<lambda>z. z) (ex_modules s') = 5 / 2"
    by (simp add: ex_bnn_def ex_modules_def kl_div_def)
  have c: "ex_criterion ex_inputs ex_targets = Inr 1"
    by (simp add: ex_criterion_def)
  have m: "mean_of_draws (\<lambda>z. z) (ex_elbo 3) 0 ex_inputs ex_targets = Inr (6, 3)"
    by (simp add: mean_of_draws_def ex_elbo_def eval_nat_numeral ex_bnn_def ex_modules_def
        ex_criterion_def kl_div_def accumulate_def)
  have f3: "ELBOLoss_forward (\<lambda>z. z) (ex_elbo 3) 0 ex_inputs ex_targets = Inr (6, 3)"
    using elbo_rounded_mean_over_draws[OF i3, of "\<lambda>z. z" 0 ex_inputs ex_targets] m by simp
  have dr: "elbo_draws (\<lambda>z. z) (ex_elbo 3) (nat 3) 0 ex_inputs ex_targets =
              Inr ([(1, 5), (1, 5), (1, 5)], 3)"
    by (simp add: ex_elbo_def eval_nat_numeral ex_bnn_def ex_modules_def ex_criterion_def
        kl_div_def)
  have b3: "ELBOLoss_forward (\<lambda>z. z) (ex_elbo 3) 0 ex_inputs ex_targets =
     Inr (sum_list (map (\<lambda>(c, w). c + w) [(1, 5), (1, 5), (1, 5)]) / 3, 3)"
    using elbo_rounded_mean_over_draws[OF i3, of "\<lambda>z. z" 0 ex_inputs ex_targets,
        THEN conjunct2, THEN conjunct1, rule_format, OF _ dr]
    by simp
  have e3: "\<exists>s'. ELBOLoss_forward (\<lambda>z. z) (ex_elbo 3) 0 ex_inputs ex_targets =
                 Inr (1 + 2 * (5 / 2), s')"
    using elbo_rounded_mean_over_draws[OF i3, of "\<lambda>z. z" 0 ex_inputs ex_targets ex_inputs
        "5 / 2" 1] d c
    by blast
  have d7: "\<forall>s. \<exists>s'. ex_bnn s ex_inputs = Inr (ex_inputs, s') \<and>
                  kl_div round32 (ex_no_modules s') = 0"
    by (simp add: ex_bnn_def kl_div_def ex_no_modules_def)
  have c7: "ex_criterion32 ex_inputs ex_targets = Inr (13421773 / 134217728)"
    by (simp add: ex_criterion32_def)
  have e7: "\<exists>s'. ELBOLoss_forward round32 (ex_elbo32 7) 0 ex_inputs ex_targets =
      Inr (round32 (((\<lambda>a. round32 (round32 (a + 13421773 / 134217728) + round32 (round32 0 * 0))) ^^
                      nat 7) 0 / round32 (real_of_int 7)), s')"
    using elbo_rounded_mean_over_draws[OF i7, of round32 0 ex_inputs ex_targets ex_inputs 0
        "13421773 / 134217728"] d7 c7
    by blast
  from i3 m f3 dr b3 e3 i7 e7 show ?thesis
    by blast
qed

section \<open>The reductions of NIGLoss\<close>

lemma NIGLoss_init_Inr:
  "NIGLoss_init w red = Inr L \<longleftrightarrow>
     0 \<le> w \<and> valid_reduction red \<and> L = \<lparr>nig_reg_weight = w, nig_reduction = red\<rparr>"
  by (auto simp: NIGLoss_init_def)

lemma nig_forward_reduce:
  "NIGLoss_forward lg \<lparr>nig_reg_weight = w, nig_reduction = red\<rparr> gamma v alpha beta targets =
     map_sum id (reduce_loss red)
       (NIGLoss_forward lg \<lparr>nig_reg_weight = w, nig_reduction = ''none''\<rparr>
          gamma v alpha beta targets)"
  by (simp add: NIGLoss_forward_def bindE_def reduce_loss_def split: sum.splits)

lemma ex_nig_none:
  "\<exists>a b c d.
     NIGLoss_forward (\<lambda>x. 0) (ex_nig ''none'') ex_gamma ex_ones ex_ones ex_ones ex_nig_targets
       = Inr (Tn [Tn [Sc a, Sc b], Tn [Sc c, Sc d]])"
  by (simp add: NIGLoss_forward_def ex_nig_def ex_gamma_def ex_ones_def ex_nig_targets_def
      nig_nll_def nig_reg_def tmul_def tadd_def tsub_def smul_def sadd_def tlog_def pow2_def
      sum_dim_def norm_dim_def reduce_loss_def)

text \<open>
  C7. Take the \<open>NIGLoss\<close> objects that the constructor returns for one weight and the
  three reductions. On the same inputs, either all three \<open>forward\<close> calls raise the
  same error, or the call with \<open>'none'\<close> returns the element-wise loss, the call with
  \<open>'sum'\<close> returns the sum of its elements and the call with \<open>'mean'\<close> returns that sum
  divided by the number of elements.
\<close>

theorem nig_reduction_consistent:
  assumes "NIGLoss_init w ''none'' = Inr Ln"
  shows "\<exists>Ls Lm. NIGLoss_init w ''sum'' = Inr Ls \<and> NIGLoss_init w ''mean'' = Inr Lm \<and>
     (case NIGLoss_forward lg Ln gamma v alpha beta targets of
        Inl e \<Rightarrow>
          NIGLoss_forward lg Ls gamma v alpha beta targets = Inl e \<and>
          NIGLoss_forward lg Lm gamma v alpha beta targets = Inl e
      | Inr elementwise \<Rightarrow>
          NIGLoss_forward lg Ls gamma v alpha beta targets =
            Inr (Sc (sum_list (elements elementwise))) \<and>
          NIGLoss_forward lg Lm gamma v alpha beta targets =
            Inr (Sc (sum_list (elements elementwise) / real (length (elements elementwise)))))"
proof -
  from assms have w: "0 \<le> w" and Ln: "Ln = \<lparr>nig_reg_weight = w, nig_reduction = ''none''\<rparr>"
    by (simp_all add: NIGLoss_init_Inr)
  let ?Ls = "\<lparr>nig_reg_weight = w, nig_reduction = ''sum''\<rparr>"
  let ?Lm = "\<lparr>nig_reg_weight = w, nig_reduction = ''mean''\<rparr>"
  have s: "NIGLoss_init w ''sum'' = Inr ?Ls" and m: "NIGLoss_init w ''mean'' = Inr ?Lm"
    using w by (simp_all add: NIGLoss_init_Inr valid_reduction_def)
  have "case NIGLoss_forward lg Ln gamma v alpha beta targets of
        Inl e \<Rightarrow>
          NIGLoss_forward lg ?Ls gamma v alpha beta targets = Inl e \<and>
          NIGLoss_forward lg ?Lm gamma v alpha beta targets = Inl e
      | Inr elementwise \<Rightarrow>
          NIGLoss_forward lg ?Ls gamma v alpha beta targets =
            Inr (Sc (sum_list (elements elementwise))) \<and>
          NIGLoss_forward lg ?Lm gamma v alpha beta targets =
            Inr (Sc (sum_list (elements elementwise) / real (length (elements elementwise))))"
    unfolding Ln nig_forward_reduce[of lg w "''sum''"] nig_forward_reduce[of lg w "''mean''"]
    by (simp add: reduce_loss_def sum_all_def mean_all_def split: sum.splits)
  with s m show ?thesis
    by blast
qed

theorem nig_reduction_consistent_witness:
  "NIGLoss_init (1 / 2) ''none'' = Inr (ex_nig ''none'') \<and>
   NIGLoss_init (1 / 2) ''sum'' = Inr (ex_nig ''sum'') \<and>
   NIGLoss_init (1 / 2) ''mean'' = Inr (ex_nig ''mean'') \<and>
   \<not> isl (NIGLoss_forward (\<lambda>x. 0) (ex_nig ''none'') ex_gamma ex_ones ex_ones ex_ones
            ex_nig_targets) \<and>
   NIGLoss_forward (\<lambda>x. 0) (ex_nig ''sum'') ex_gamma ex_ones ex_ones ex_ones ex_nig_targets =
     Inr (Sc (sum_list (elements (projr
       (NIGLoss_forward (\<lambda>x. 0) (ex_nig ''none'') ex_gamma ex_ones ex_ones ex_ones
          ex_nig_targets))))) \<and>
   NIGLoss_forward (\<lambda>x. 0) (ex_nig ''mean'') ex_gamma ex_ones ex_ones ex_ones ex_nig_targets =
     Inr (Sc (sum_list (elements (projr
       (NIGLoss_forward (\<lambda>x. 0) (ex_nig ''none'') ex_gamma ex_ones ex_ones ex_ones
          ex_nig_targets))) / 4))"
proof -
  have i: "NIGLoss_init (1 / 2) ''none'' = Inr (ex_nig ''none'')"
    "NIGLoss_init (1 / 2) ''sum'' = Inr (ex_nig ''sum'')"
    "NIGLoss_init (1 / 2) ''mean'' = Inr (ex_nig ''mean'')"
    by (simp_all add: NIGLoss_init_def ex_nig_def valid_reduction_def)
  from ex_nig_none obtain a b c d where
    n: "NIGLoss_forward (\<lambda>x. 0) (ex_nig ''none'') ex_gamma ex_ones ex_ones ex_ones
          ex_nig_targets = Inr (Tn [Tn [Sc a, Sc b], Tn [Sc c, Sc d]])"
    by blast
  from nig_reduction_consistent[OF i(1), of "\<lambda>x. 0" ex_gamma ex_ones ex_ones ex_ones
      ex_nig_targets] i(2,3) n
  have "NIGLoss_forward (\<lambda>x. 0) (ex_nig ''sum'') ex_gamma ex_ones ex_ones ex_ones
          ex_nig_targets =
          Inr (Sc (sum_list (elements (Tn [Tn [Sc a, Sc b], Tn [Sc c, Sc d]])))) \<and>
        NIGLoss_forward (\<lambda>x. 0) (ex_nig ''mean'') ex_gamma ex_ones ex_ones ex_ones
          ex_nig_targets =
          Inr (Sc (sum_list (elements (Tn [Tn [Sc a, Sc b], Tn [Sc c, Sc d]])) /
                 real (length (elements (Tn [Tn [Sc a, Sc b], Tn [Sc c, Sc d]])))))"
    by auto
  with i n show ?thesis
    by simp
qed

section \<open>The entropy criterion of the ensemble\<close>

lemma has_shape_Nil: "has_shape [] t \<longleftrightarrow> is_Sc t"
  by (cases t) simp_all

lemma has_shape_Cons:
  "has_shape (d # ds) t \<longleftrightarrow> (\<exists>ts. t = Tn ts \<and> length ts = d \<and> list_all (has_shape ds) ts)"
  by (cases t) simp_all

lemma has_shape_ndim:
  "has_shape sh t \<Longrightarrow> list_all (\<lambda>d. 0 < d) sh \<Longrightarrow> ndim t = length sh"
proof (induction sh arbitrary: t)
  case Nil
  then show ?case by (cases t) simp_all
next
  case (Cons d ds)
  then obtain ts where t: "t = Tn ts" "length ts = d" "list_all (has_shape ds) ts"
    by (auto simp: has_shape_Cons)
  with Cons.prems obtain u us where "ts = u # us" by (cases ts) auto
  with t Cons show ?case by simp
qed

lemma has_shape_map: "has_shape sh t \<Longrightarrow> has_shape sh (map_tensor f t)"
proof (induction sh arbitrary: t)
  case Nil
  then show ?case by (cases t) simp_all
next
  case (Cons d ds)
  then show ?case by (cases t) (auto simp: list_all_iff)
qed

lemma mapM_all:
  assumes "\<And>x. x \<in> set xs \<Longrightarrow> \<exists>y. g x = Inr y \<and> P y"
  shows "\<exists>ys. mapM g xs = Inr ys \<and> length ys = length xs \<and> list_all P ys"
  using assms
proof (induction xs)
  case Nil
  show ?case by simp
next
  case (Cons x xs)
  from Cons.prems[of x] obtain y where y: "g x = Inr y" "P y" by auto
  from Cons.IH Cons.prems obtain ys where "mapM g xs = Inr ys" "length ys = length xs" "list_all P ys"
    by auto
  with y show ?case by simp
qed

lemma bop_same_shape:
  "has_shape sh a \<Longrightarrow> has_shape sh b \<Longrightarrow> list_all (\<lambda>d. 0 < d) sh \<Longrightarrow>
     \<exists>c. bop f a b = Inr c \<and> has_shape sh c"
proof (induction sh arbitrary: a b)
  case Nil
  then show ?case by (cases a; cases b) simp_all
next
  case (Cons d ds)
  from Cons.prems obtain xs ys where
    a: "a = Tn xs" "length xs = d" "list_all (has_shape ds) xs" and
    b: "b = Tn ys" "length ys = d" "list_all (has_shape ds) ys"
    by (auto simp: has_shape_Cons)
  have nd: "ndim (Tn xs) = ndim (Tn ys)"
    using has_shape_ndim[OF Cons.prems(1,3)] has_shape_ndim[OF Cons.prems(2,3)] a b by simp
  have "\<exists>cs. mapM (\<lambda>(x, y). bop f x y) (zip xs ys) = Inr cs \<and>
             length cs = length (zip xs ys) \<and> list_all (has_shape ds) cs"
  proof (rule mapM_all)
    fix p assume p: "p \<in> set (zip xs ys)"
    obtain x y where xy: "p = (x, y)" by (cases p)
    with p have "x \<in> set xs" "y \<in> set ys" by (auto dest: set_zip_leftD set_zip_rightD)
    with a b have "has_shape ds x" "has_shape ds y" by (auto simp: list_all_iff)
    from Cons.IH[OF this] Cons.prems(3) xy
    show "\<exists>c. (case p of (x, y) \<Rightarrow> bop f x y) = Inr c \<and> has_shape ds c" by simp
  qed
  then obtain cs where cs: "mapM (\<lambda>(x, y). bop f x y) (zip xs ys) = Inr cs"
    "length cs = length (zip xs ys)" "list_all (has_shape ds) cs" by blast
  have "bop f a b = Inr (Tn cs)"
    using a b nd cs(1) by simp
  moreover have "has_shape (d # ds) (Tn cs)"
    using cs a b by simp
  ultimately show ?case by blast
qed

lemma foldM_bop_shape:
  "has_shape sh t \<Longrightarrow> list_all (has_shape sh) ts \<Longrightarrow> list_all (\<lambda>d. 0 < d) sh \<Longrightarrow>
     \<exists>r. foldM (bop f) t ts = Inr r \<and> has_shape sh r"
proof (induction ts arbitrary: t)
  case Nil
  then show ?case by simp
next
  case (Cons u us)
  from bop_same_shape[OF Cons.prems(1) _ Cons.prems(3), of u f] Cons.prems(2)
  obtain c where c: "bop f t u = Inr c" "has_shape sh c" by auto
  from Cons.IH[OF c(2) _ Cons.prems(3)] Cons.prems(2) c(1) show ?case by simp
qed

lemma reduce_at_shape:
  "has_shape sh t \<Longrightarrow> list_all (\<lambda>d. 0 < d) sh \<Longrightarrow> k < length sh \<Longrightarrow>
     \<exists>r. reduce_at f z False k t = Inr r \<and> has_shape (take k sh @ drop (Suc k) sh) r"
proof (induction k arbitrary: sh t)
  case 0
  then obtain d ds where sh: "sh = d # ds" by (cases sh) auto
  with 0 obtain ts where t: "t = Tn ts" "length ts = d" "list_all (has_shape ds) ts"
    by (auto simp: has_shape_Cons)
  with 0 sh obtain u us where ts: "ts = u # us" by (cases ts) auto
  from foldM_bop_shape[of ds u us f] t ts 0 sh
  obtain r where "foldM (bop f) u us = Inr r" "has_shape ds r" by auto
  with t ts sh show ?case by simp
next
  case (Suc k)
  then obtain d ds where sh: "sh = d # ds" by (cases sh) auto
  with Suc obtain ts where t: "t = Tn ts" "length ts = d" "list_all (has_shape ds) ts"
    by (auto simp: has_shape_Cons)
  have "\<exists>rs. mapM (reduce_at f z False k) ts = Inr rs \<and> length rs = length ts \<and>
          list_all (has_shape (take k ds @ drop (Suc k) ds)) rs"
  proof (rule mapM_all)
    fix x assume "x \<in> set ts"
    with t have "has_shape ds x" by (auto simp: list_all_iff)
    from Suc.IH[OF this] Suc.prems sh
    show "\<exists>y. reduce_at f z False k x = Inr y \<and> has_shape (take k ds @ drop (Suc k) ds) y"
      by simp
  qed
  then obtain rs where "mapM (reduce_at f z False k) ts = Inr rs" "length rs = length ts"
    "list_all (has_shape (take k ds @ drop (Suc k) ds)) rs" by blast
  with t sh show ?case by simp
qed

lemma softmax_shape: "has_shape sh t \<Longrightarrow> has_shape sh (softmax_last t)"
proof (induction sh arbitrary: t)
  case Nil
  then show ?case by (cases t) simp_all
next
  case (Cons d ds)
  then obtain ts where t: "t = Tn ts" "length ts = d" "list_all (has_shape ds) ts"
    by (auto simp: has_shape_Cons)
  show ?case
  proof (cases "list_all is_Sc ts")
    case True
    show ?thesis
    proof (cases ds)
      case Nil
      with t True show ?thesis by (simp add: list_all_iff)
    next
      case (Cons e es)
      with t True have "ts = []"
        by (cases ts) (auto simp: has_shape_Cons)
      with t show ?thesis by simp
    qed
  next
    case False
    then have "softmax_last t = Tn (map softmax_last ts)"
      using t(1) by simp
    moreover have "list_all (has_shape ds) (map softmax_last ts)"
      using t(3) Cons.IH by (simp add: list_all_iff)
    ultimately show ?thesis
      using t(2) by simp
  qed
qed

lemma rearrange_shape:
  assumes "has_shape [n * b, c] t" "0 < n" "0 < b" "0 < c"
  shows "\<exists>out. rearrange_nb_c n t = Inr out \<and> has_shape [b, n, c] out"
proof -
  from assms(1) obtain rows where
    t: "t = Tn rows" "length rows = n * b" "list_all (has_shape [c]) rows"
    by (auto simp: has_shape_Cons)
  have nd: "ndim t = 2"
    using has_shape_ndim[OF assms(1)] assms by simp
  have dv: "length rows div n = b" "length rows mod n = 0"
    using t(2) assms(2) by simp_all
  have r: "rearrange_nb_c n t =
     Inr (Tn (map Tn (map (\<lambda>i. map (\<lambda>e. rows ! (e * b + i)) [0..<n]) [0..<b])))"
    using nd t(1) assms(2) dv transpose_split_rows[OF assms(2) t(2)]
    by (simp add: rearrange_nb_c_def)
  have "\<And>e i. e < n \<Longrightarrow> i < b \<Longrightarrow> has_shape [c] (rows ! (e * b + i))"
  proof -
    fix e i assume ei: "e < n" "i < b"
    have "e * b + b \<le> n * b"
      using ei(1) by (metis Suc_leI mult_Suc mult_le_mono1 add.commute)
    with ei(2) have "e * b + i < length rows" using t(2) by simp
    with t(3) show "has_shape [c] (rows ! (e * b + i))"
      by (simp add: list_all_length)
  qed
  then have "has_shape [b, n, c]
     (Tn (map Tn (map (\<lambda>i. map (\<lambda>e. rows ! (e * b + i)) [0..<n]) [0..<b])))"
    by (simp add: list_all_iff)
  with r show ?thesis by simp
qed

lemma reduce_last_shape:
  assumes "has_shape sh t" "list_all (\<lambda>d. 0 < d) sh" "sh \<noteq> []"
  shows "\<exists>r. reduce_at f z False (length sh - 1) t = Inr r \<and> has_shape (butlast sh) r"
  using reduce_at_shape[OF assms(1,2), of "length sh - 1" f z] assms(3)
  by (simp add: butlast_conv_take)

lemma mean_dim_1_rank1:
  assumes "has_shape [b] s" "0 < b"
  shows "mean_dim 1 s = Inl IndexError"
  using has_shape_ndim[OF assms(1)] assms(2) by (simp add: mean_dim_def norm_dim_def)

lemma ensemble_entropy_values:
  assumes "use_entropy r" "\<not> use_logits r" "has_shape [b, c] probs" "0 < b" "0 < c"
  shows "ensemble_ood_values mi vr r logits ppe probs = Inl IndexError"
proof -
  have nd: "ndim probs = 2" "ndim (entr probs) = 2"
    using has_shape_ndim[OF assms(3)] has_shape_ndim[OF has_shape_map[OF assms(3)], of "\<lambda>x. if 0 < x then - x * ln x else 0"] assms(4,5)
    by (simp_all add: entr_def)
  from reduce_at_shape[OF assms(3), of 1 max "Inl IndexError"] assms(4,5)
  obtain confs where confs: "max_dim (- 1) probs = Inr confs"
    by (auto simp: max_dim_def norm_dim_def nd)
  have "has_shape [b, c] (entr probs)"
    using assms(3) by (simp add: entr_def has_shape_map)
  from reduce_at_shape[OF this, of 1 "(+)" "Inr (Sc 0)"] assms(4,5)
  obtain s where s: "sum_dim (- 1) False (entr probs) = Inr s" "has_shape [b] s"
    by (auto simp: sum_dim_def norm_dim_def nd)
  from mean_dim_1_rank1[OF s(2) assms(4)] s(1) confs assms(1,2)
  show ?thesis by (simp add: ensemble_ood_values_def)
qed

text \<open>
  C5 fails on the code. With \<open>use_entropy\<close> selected, whenever the model returns
  stacked logits of shape \<open>[num_estimators * b, c]\<close> (any batch size \<open>b \<ge> 1\<close> and
  any number of classes \<open>c \<ge> 1\<close>), the ensemble test step yields no score: the
  entropy summed over the classes of the averaged probabilities has the single
  dimension \<open>[b]\<close>, and the further \<open>.mean(dim=1)\<close> on it raises IndexError, for every
  dataloader index and whatever the external metrics are.
\<close>

theorem ensemble_entropy_always_raises:
  assumes "use_entropy r" "\<not> use_logits r"
    and "forward (model r) inputs = Inr logits0"
    and "has_shape [num_estimators r * b, c] logits0"
    and "0 < num_estimators r" "0 < b" "0 < c"
  shows "ensemble_test_step mi vr r (inputs, targets) batch_idx dataloader_idx = Inl IndexError"
proof -
  from rearrange_shape[OF assms(4,5,6,7)] obtain logits where
    l: "rearrange_nb_c (num_estimators r) logits0 = Inr logits"
       "has_shape [b, num_estimators r, c] logits" by blast
  let ?ppe = "if binary_cls r then sigmoid logits else softmax_last logits"
  have p: "has_shape [b, num_estimators r, c] ?ppe"
    using l(2) by (simp add: sigmoid_def has_shape_map softmax_shape)
  have nd: "ndim ?ppe = 3"
    using has_shape_ndim[OF p] assms(5,6,7) by simp
  from reduce_at_shape[OF p, of 1 "(+)" "Inr (Sc 0)"] assms(5,6,7)
  obtain sm where sm: "reduce_at (+) (Inr (Sc 0)) False 1 ?ppe = Inr sm" "has_shape [b, c] sm"
    by auto
  have m: "mean_dim 1 ?ppe = Inr (map_tensor (\<lambda>x. x / real (dim_size 1 ?ppe)) sm)"
    using sm(1) nd by (simp add: mean_dim_def norm_dim_def)
  have "has_shape [b, c] (map_tensor (\<lambda>x. x / real (dim_size 1 ?ppe)) sm)"
    using sm(2) by (rule has_shape_map)
  from ensemble_entropy_values[OF assms(1,2) this assms(6,7)] assms(3) l(1) m
  show ?thesis
    by (simp add: ensemble_test_step_def Let_def)
qed

lemma ensemble_entropy_example_raises:
  "bindE (ensemble_init (ex_ens_args\<lparr>arg_use_entropy := True\<rparr>))
     (\<lambda>r. ensemble_test_step mi_metric vr_metric r (ex_ens_logits, ex_targets) 0 (Some 0))
   = Inl IndexError"
  by (simp add: ensemble_init_def ex_ens_args_def single_args.extend_def
      single_args.truncate_def ensemble_args.fields_def ex_args_def single_init_def
      routine.extend_def ens_routine.fields_def ensemble_test_step_def ex_model_def
      ex_ens_logits_def ex_targets_def rearrange_nb_c_def split_rows_def upt_rec mean_dim_def
      norm_dim_def ensemble_ood_values_def max_dim_def sum_dim_def entr_def Let_def)

lemma ex_ens_routine_fields:
  "ensemble_init (ex_ens_args\<lparr>arg_use_entropy := True\<rparr>) = Inr ex_ens_routine"
  "use_entropy ex_ens_routine" "\<not> use_logits ex_ens_routine"
  "num_estimators ex_ens_routine = 3" "forward (model ex_ens_routine) = Inr"
  by (simp_all add: ex_ens_routine_def ensemble_init_def ex_ens_args_def
      single_args.extend_def single_args.truncate_def ensemble_args.fields_def ex_args_def
      single_init_def routine.extend_def ens_routine.fields_def ex_model_def)

theorem ensemble_entropy_always_raises_witness:
  "ensemble_init (ex_ens_args\<lparr>arg_use_entropy := True\<rparr>) = Inr ex_ens_routine \<and>
   use_entropy ex_ens_routine \<and> \<not> use_logits ex_ens_routine \<and>
   has_shape [3 * 1, 2] ex_ens_logits \<and>
   ensemble_test_step Inr Inr ex_ens_routine (ex_ens_logits, ex_targets) 0 (Some 0) =
     Inl IndexError \<and>
   ensemble_test_step Inr Inr ex_ens_routine (ex_ens_logits, ex_targets) 0 (Some 1) =
     Inl IndexError"
proof -
  have sh: "has_shape [num_estimators ex_ens_routine * 1, 2] ex_ens_logits"
    by (simp add: ex_ens_routine_fields ex_ens_logits_def)
  have fw: "forward (model ex_ens_routine) ex_ens_logits = Inr ex_ens_logits"
    by (simp add: ex_ens_routine_fields)
  have "\<And>idx. ensemble_test_step Inr Inr ex_ens_routine (ex_ens_logits, ex_targets) 0 idx =
           Inl IndexError"
    by (rule ensemble_entropy_always_raises[OF ex_ens_routine_fields(2,3) fw sh])
      (simp_all add: ex_ens_routine_fields)
  moreover have "has_shape [3 * 1, 2] ex_ens_logits"
    by (simp add: ex_ens_logits_def)
  ultimately show ?thesis
    using ex_ens_routine_fields by simp
qed

end
